theory Spec2Isabelle
  imports
    Complex_Main
    "HOL-Library.AList"
    "HOL-Library.Char_ord"
    "HOL-Library.List_Lexorder"
    "HOL-Library.Multiset"
begin

section \<open>Python values, dictionaries and errors\<close>

text \<open>
  The readers of DicoGIS fill Python dictionaries that are handed in by the caller.
  A dictionary is modelled as an association list updated with \<open>AList.update\<close>:
  like an \<open>OrderedDict\<close>, a new key goes to the end and an existing key keeps its
  place. Byte strings and unicode strings are both \<open>string\<close>; \<open>unicode(s)\<close> of a
  byte string raises \<open>UnicodeDecodeError\<close> when a byte is outside ASCII, and
  \<open>s.decode('latin1')\<close> keeps every byte as the code point of the same number.
  Floats are idealised as reals. \<open>PFmt31 x u\<close> stands for the text
  \<^verbatim>\<open>"%3.1f %s" % (x, u)\<close> and \<open>PTime f t\<close> for
  \<^verbatim>\<open>strftime(f, localtime(t))\<close>.
\<close>

datatype pyval =
    PNone
  | PInt int
  | PFloat real
  | PStr string
  | PList "pyval list"
  | PTuple "pyval list"
  | PDict "(string \<times> pyval) list"
  | PFmt31 real string
  | PTime string int

type_synonym pydict = "(string \<times> pyval) list"

datatype py_error =
    OSError
  | AttributeError
  | UnboundLocalError
  | TypeError
  | RuntimeError
  | UnicodeDecodeError

definition setitem :: "string \<Rightarrow> pyval \<Rightarrow> pydict \<Rightarrow> pydict" where
  "setitem k v d = AList.update k v d"

definition dict_get :: "pydict \<Rightarrow> string \<Rightarrow> pyval" where
  "dict_get d k = (case map_of d k of None \<Rightarrow> PNone | Some v \<Rightarrow> v)"

definition keys :: "pydict \<Rightarrow> string list" where
  "keys d = map fst d"

section \<open>The functions of \<open>os.path\<close> that the code calls (POSIX flavour)\<close>

definition rfind1 :: "char \<Rightarrow> string \<Rightarrow> nat" where
  \<comment> \<open>\<open>p.rfind(c) + 1\<close>: one past the last occurrence of \<open>c\<close>, 0 when there is none\<close>
  "rfind1 c p = length (dropWhile (\<lambda>x. x \<noteq> c) (rev p))"

definition rstrip :: "char \<Rightarrow> string \<Rightarrow> string" where
  "rstrip c s = rev (dropWhile (\<lambda>x. x = c) (rev s))"

definition basename :: "string \<Rightarrow> string" where
  "basename p = drop (rfind1 CHR ''/'' p) p"

definition dirname :: "string \<Rightarrow> string" where
  "dirname p =
     (let head = take (rfind1 CHR ''/'' p) p
      in if head \<noteq> [] \<and> head \<noteq> replicate (length head) CHR ''/''
         then rstrip CHR ''/'' head else head)"

definition path_join :: "string \<Rightarrow> string \<Rightarrow> string" where
  "path_join a b =
     (if b \<noteq> [] \<and> hd b = CHR ''/'' then b
      else if a = [] \<or> last a = CHR ''/'' then a @ b
      else a @ CHR ''/'' # b)"

definition splitext :: "string \<Rightarrow> string \<times> string" where
  "splitext p =
     (let sep1 = rfind1 CHR ''/'' p; dot1 = rfind1 CHR ''.'' p
      in if sep1 < dot1 \<and> list_ex (\<lambda>c. c \<noteq> CHR ''.'') (take (dot1 - 1 - sep1) (drop sep1 p))
         then (take (dot1 - 1) p, drop (dot1 - 1) p)
         else (p, []))"

definition lower_char :: "char \<Rightarrow> char" where
  \<comment> \<open>\<open>str.lower\<close> on one byte, ASCII letters only\<close>
  "lower_char c =
     (let n = (of_char c :: nat) in if 65 \<le> n \<and> n \<le> 90 then char_of (n + 32) else c)"

definition upper_char :: "char \<Rightarrow> char" where
  "upper_char c =
     (let n = (of_char c :: nat) in if 97 \<le> n \<and> n \<le> 122 then char_of (n - 32) else c)"

definition lower :: "string \<Rightarrow> string" where
  "lower s = map lower_char s"

definition drop_last4 :: "string \<Rightarrow> string" where
  \<comment> \<open>the slice \<open>s[:-4]\<close>\<close>
  "drop_last4 s = take (length s - 4) s"

definition take_last4 :: "string \<Rightarrow> string" where
  \<comment> \<open>the slice \<open>s[-4:]\<close>\<close>
  "take_last4 s = drop (length s - 4) s"

text \<open>
  What the operating system answers. \<open>walk\<close> gives the triples
  \<open>(root, dirs, files)\<close> of \<open>os.walk\<close> in the order it yields them;
  \<open>getsize\<close>, \<open>getmtime\<close> and \<open>getctime\<close> are \<open>None\<close> where the call raises
  \<open>OSError\<close>; \<open>abspath p\<close> is \<open>os.path.abspath(p)\<close> in the working directory
  of the process, and \<open>abspath_after_chdir d p\<close> is \<open>os.path.abspath(p)\<close> once
  \<open>os.chdir(d)\<close> has been done.
\<close>

record os_env =
  isfile :: "string \<Rightarrow> bool"
  isdir :: "string \<Rightarrow> bool"
  getsize :: "string \<Rightarrow> nat option"
  getmtime :: "string \<Rightarrow> int option"
  getctime :: "string \<Rightarrow> int option"
  realpath :: "string \<Rightarrow> string"
  abspath :: "string \<Rightarrow> string"
  abspath_after_chdir :: "string \<Rightarrow> string \<Rightarrow> string"
  walk :: "string \<Rightarrow> (string \<times> string list \<times> string list) list"

section \<open>\<open>modules/georeaders/geoutils.py\<close>: class \<open>Utils\<close>\<close>

fun prettify :: "real \<Rightarrow> string list \<Rightarrow> pyval" where
  "prettify x [] = PFmt31 x '' To''"
| "prettify x (u # us) = (if x < 1024 then PFmt31 x u else prettify (x / 1024) us)"

definition size_cats :: "string list" where
  "size_cats = [''octets'', ''Ko'', ''Mo'', ''Go'']"

fun walk_total :: "os_env \<Rightarrow> string list \<Rightarrow> nat \<Rightarrow> py_error + nat" where
  "walk_total env [] total_size = Inr total_size"
| "walk_total env (chem_complete # rest) total_size =
     (if isfile env chem_complete
      then (case getsize env chem_complete of
              None \<Rightarrow> Inl OSError
            | Some n \<Rightarrow> walk_total env rest (total_size + n))
      else walk_total env rest total_size)"

definition walk_paths :: "(string \<times> string list \<times> string list) list \<Rightarrow> string list" where
  \<comment> \<open>\<open>path.join(root, f)\<close> for every file of every triple, in the order of the two loops\<close>
  "walk_paths w = concat (map (\<lambda>(rootdir, dirs, files). map (path_join rootdir) files) w)"

text \<open>
  \<open>Utils.sizeof(source_path, dependencies)\<close>. The list \<open>dependencies\<close> is an object
  of the caller (or the one default list of the function), so the model returns its
  contents after the call next to the outcome of the call.
\<close>

definition sizeof :: "os_env \<Rightarrow> string \<Rightarrow> string list \<Rightarrow> string list \<times> (py_error + pyval)" where
  "sizeof env source_path dependencies =
     (if isfile env source_path then
        (let appended = dependencies @ [source_path]
         in case those (map (getsize env) appended) of
              None \<Rightarrow> (appended, Inl OSError)
            | Some sizes \<Rightarrow> (butlast appended, Inr (prettify (real (sum_list sizes)) size_cats)))
      else if isdir env source_path then
        (case walk_total env (walk_paths (walk env (realpath env source_path))) 0 of
           Inl e \<Rightarrow> (dependencies, Inl e)
         | Inr total_size \<Rightarrow> (dependencies, Inr (prettify (real total_size) size_cats)))
      else (dependencies, Inr PNone))"

text \<open>
  \<open>Utils.erratum(ctner, src, ds_lyr, mess_type, mess)\<close> for a \<open>Utils\<close> object built
  with \<open>ds_type\<close>: the container after the call and the value returned (\<open>None\<close> in
  the last branch, the container otherwise).
\<close>

definition utils_erratum ::
  "string \<Rightarrow> pydict \<Rightarrow> string \<Rightarrow> pyval \<Rightarrow> pyval \<Rightarrow> pydict \<times> pydict option" where
  "utils_erratum ds_type ctner src mess_type mess =
     (if ds_type = ''flat'' then
        (let c1 = setitem ''name'' (PStr (basename src)) ctner;
             c2 = setitem ''folder'' (PStr (dirname src)) c1;
             c3 = setitem ''error'' mess c2
         in (c3, Some c3))
      else if ds_type = ''postgis'' then
        (let c1 = setitem ''name'' mess_type ctner;
             c2 = setitem ''error'' mess c1
         in (c2, Some c2))
      else (ctner, None))"

section \<open>The erratum methods of the two raster readers\<close>

text \<open>
  \<open>InfosRasters.erratum\<close> reads \<open>self.layer\<close>, an attribute that no method of the
  class ever sets: after the first two assignments the call raises
  \<open>AttributeError\<close>.
\<close>

definition rasters_erratum :: "pydict \<Rightarrow> string \<Rightarrow> pyval \<Rightarrow> pydict \<times> (py_error + unit)" where
  "rasters_erratum dicolayer layerpath mess =
     (let d1 = setitem ''name'' (PStr (basename layerpath)) dicolayer;
          d2 = setitem ''folder'' (PStr (dirname layerpath)) d1
      in (d2, Inl AttributeError))"

definition geopdf_erratum :: "pydict \<Rightarrow> string \<Rightarrow> pyval \<Rightarrow> pydict" where
  "geopdf_erratum dico_geopdf pdfpath mess =
     (let d1 = setitem ''name'' (PStr (basename pdfpath)) dico_geopdf;
          d2 = setitem ''folder'' (PStr (dirname pdfpath)) d1
      in setitem ''error'' mess d2)"

section \<open>\<open>DicoGIS.py\<close>: the folder walk \<open>DicoGIS.ligeofiles\<close>\<close>

text \<open>
  The attributes of the \<open>DicoGIS\<close> window that \<open>ligeofiles\<close> reads and writes.
  The widgets it touches (status line, progress bar, buttons) and the logger hold no
  data of the classification and are left out. File and folder names are text that
  \<open>unicode\<close> accepts, so both branches of the two \<open>try\<close> blocks give
  \<open>path.join(root, name)\<close>.
\<close>

record gis_state =
  num_folders :: nat
  li_shp :: "string list"
  li_tab :: "string list"
  li_kml :: "string list"
  li_gml :: "string list"
  li_geoj :: "string list"
  li_raster :: "string list"
  li_gdb :: "string list"

definition li_raster_formats :: "string list" where
  "li_raster_formats = [''.ecw'', ''.tif'', ''.jp2'']"

definition gis_init :: gis_state where
  \<comment> \<open>the lists before the first call: empty (\<open>ligeofiles\<close> itself creates three of them)\<close>
  "gis_init = \<lparr> num_folders = 0, li_shp = [], li_tab = [], li_kml = [], li_gml = [],
                li_geoj = [], li_raster = [], li_gdb = [] \<rparr>"

definition shp_test :: "os_env \<Rightarrow> string \<Rightarrow> bool" where
  "shp_test env full_path \<longleftrightarrow>
     lower (snd (splitext (lower full_path))) = ''.shp'' \<and>
     (isfile env (drop_last4 full_path @ ''.dbf'') \<or> isfile env (drop_last4 full_path @ ''.DBF'')) \<and>
     (isfile env (drop_last4 full_path @ ''.shx'') \<or> isfile env (drop_last4 full_path @ ''.SHX'')) \<and>
     (isfile env (drop_last4 full_path @ ''.prj'') \<or> isfile env (drop_last4 full_path @ ''.PRJ''))"

definition tab_test :: "os_env \<Rightarrow> string \<Rightarrow> bool" where
  "tab_test env full_path \<longleftrightarrow>
     snd (splitext (lower full_path)) = ''.tab'' \<and>
     (isfile env (drop_last4 full_path @ ''.dat'') \<or> isfile env (drop_last4 full_path @ ''.DAT'')) \<and>
     (isfile env (drop_last4 full_path @ ''.map'') \<or> isfile env (drop_last4 full_path @ ''.MAP'')) \<and>
     (isfile env (drop_last4 full_path @ ''.id'') \<or> isfile env (drop_last4 full_path @ ''.ID''))"

definition gis_file_step :: "os_env \<Rightarrow> string \<Rightarrow> gis_state \<Rightarrow> gis_state" where
  \<comment> \<open>the body of \<open>for f in files\<close>, on \<open>full_path = path.join(root, f)\<close>\<close>
  "gis_file_step env full_path st =
     (if shp_test env full_path then st\<lparr>li_shp := li_shp st @ [full_path]\<rparr>
      else if tab_test env full_path then st\<lparr>li_tab := li_tab st @ [full_path]\<rparr>
      else if snd (splitext (lower full_path)) = ''.kml'' then st\<lparr>li_kml := li_kml st @ [full_path]\<rparr>
      else if snd (splitext (lower full_path)) = ''.gml'' then st\<lparr>li_gml := li_gml st @ [full_path]\<rparr>
      else if snd (splitext (lower full_path)) = ''.geojson'' then st\<lparr>li_geoj := li_geoj st @ [full_path]\<rparr>
      else if snd (splitext (lower full_path)) \<in> set li_raster_formats
        then st\<lparr>li_raster := li_raster st @ [full_path]\<rparr>
      else st)"

definition gis_dir_step :: "os_env \<Rightarrow> string \<Rightarrow> gis_state \<Rightarrow> gis_state" where
  \<comment> \<open>the body of \<open>for d in dirs\<close>, on \<open>full_path = path.join(root, d)\<close>\<close>
  "gis_dir_step env full_path st =
     (if lower (take_last4 full_path) = ''.gdb''
      then st\<lparr>li_gdb := li_gdb st @ [abspath env full_path]\<rparr>
      else st)"

definition gis_triple_step ::
  "os_env \<Rightarrow> string \<times> string list \<times> string list \<Rightarrow> gis_state \<Rightarrow> gis_state" where
  "gis_triple_step env triple st =
     (case triple of (rootdir, dirs, files) \<Rightarrow>
        fold (gis_file_step env) (map (path_join rootdir) files)
          (fold (gis_dir_step env) (map (path_join rootdir) dirs)
             (st\<lparr>num_folders := num_folders st + length dirs\<rparr>)))"

definition gis_reset :: "gis_state \<Rightarrow> gis_state" where
  \<comment> \<open>"reseting global variables": six of the seven lists\<close>
  "gis_reset st = st\<lparr>li_shp := [], li_tab := [], li_kml := [], li_gml := [],
                     li_geoj := [], li_raster := []\<rparr>"

definition gis_sort :: "gis_state \<Rightarrow> gis_state" where
  \<comment> \<open>"Lists ordering and tupling"\<close>
  "gis_sort st = st\<lparr>li_shp := sort (li_shp st), li_tab := sort (li_tab st),
                    li_raster := sort (li_raster st), li_kml := sort (li_kml st),
                    li_gml := sort (li_gml st), li_geoj := sort (li_geoj st)\<rparr>"

definition gis_scan ::
  "os_env \<Rightarrow> (string \<times> string list \<times> string list) list \<Rightarrow> gis_state \<Rightarrow> gis_state" where
  \<comment> \<open>\<open>ligeofiles\<close> on the triples that \<open>walk(foldertarget)\<close> yields\<close>
  "gis_scan env triples st = gis_sort (fold (gis_triple_step env) triples (gis_reset st))"

definition ligeofiles :: "os_env \<Rightarrow> string \<Rightarrow> gis_state \<Rightarrow> gis_state" where
  "ligeofiles env foldertarget st = gis_scan env (walk env foldertarget) st"

section \<open>\<open>DicoShapes.py\<close>: the folder walk \<open>DicoShapes.ligeofiles\<close>\<close>

text \<open>
  \<open>DicoShapes.ligeofiles\<close> does not reset its two attributes, and ends by replacing
  each list by a tuple. A tuple has neither \<open>append\<close> nor \<open>sort\<close>:
  both raise \<open>AttributeError\<close>.
\<close>

datatype pyseq = PyList "string list" | PyTuple "string list"

fun items :: "pyseq \<Rightarrow> string list" where
  "items (PyList xs) = xs"
| "items (PyTuple xs) = xs"

fun seq_append :: "pyseq \<Rightarrow> string \<Rightarrow> py_error + pyseq" where
  "seq_append (PyList xs) x = Inr (PyList (xs @ [x]))"
| "seq_append (PyTuple xs) x = Inl AttributeError"

fun seq_sort :: "pyseq \<Rightarrow> py_error + pyseq" where
  "seq_sort (PyList xs) = Inr (PyList (sort xs))"
| "seq_sort (PyTuple xs) = Inl AttributeError"

fun seq_tuple :: "pyseq \<Rightarrow> pyseq" where
  "seq_tuple s = PyTuple (items s)"

record shapes_state =
  shapes_li_shp :: pyseq
  shapes_li_tab :: pyseq

definition shapes_init :: shapes_state where
  \<comment> \<open>the attributes as \<open>DicoShapes.__init__\<close> leaves them\<close>
  "shapes_init = \<lparr> shapes_li_shp = PyList [], shapes_li_tab = PyList [] \<rparr>"

definition shapes_shp_test :: "os_env \<Rightarrow> string \<Rightarrow> bool" where
  "shapes_shp_test env p \<longleftrightarrow>
     snd (splitext p) = ''.shp'' \<and>
     isfile env (drop_last4 p @ ''.dbf'') \<and>
     isfile env (drop_last4 p @ ''.shx'') \<and>
     isfile env (drop_last4 p @ ''.prj'')"

definition shapes_tab_test :: "os_env \<Rightarrow> string \<Rightarrow> bool" where
  "shapes_tab_test env p \<longleftrightarrow>
     snd (splitext p) = ''.tab'' \<and>
     isfile env (drop_last4 p @ ''.dat'') \<and>
     isfile env (drop_last4 p @ ''.map'') \<and>
     isfile env (drop_last4 p @ ''.id'')"

fun shapes_files :: "os_env \<Rightarrow> string list \<Rightarrow> shapes_state \<Rightarrow> py_error + shapes_state" where
  "shapes_files env [] st = Inr st"
| "shapes_files env (p # ps) st =
     (if shapes_shp_test env p then
        (case seq_append (shapes_li_shp st) p of
           Inl e \<Rightarrow> Inl e
         | Inr l \<Rightarrow> shapes_files env ps (st\<lparr>shapes_li_shp := l\<rparr>))
      else if shapes_tab_test env p then
        (case seq_append (shapes_li_tab st) p of
           Inl e \<Rightarrow> Inl e
         | Inr l \<Rightarrow> shapes_files env ps (st\<lparr>shapes_li_tab := l\<rparr>))
      else shapes_files env ps st)"

definition shapes_finish :: "shapes_state \<Rightarrow> py_error + shapes_state" where
  \<comment> \<open>"Lists ordering and tupling"\<close>
  "shapes_finish st =
     (case seq_sort (shapes_li_shp st) of
        Inl e \<Rightarrow> Inl e
      | Inr s \<Rightarrow>
          (case seq_sort (shapes_li_tab (st\<lparr>shapes_li_shp := seq_tuple s\<rparr>)) of
             Inl e \<Rightarrow> Inl e
           | Inr t \<Rightarrow> Inr (st\<lparr>shapes_li_shp := seq_tuple s, shapes_li_tab := seq_tuple t\<rparr>)))"

definition shapes_scan ::
  "os_env \<Rightarrow> (string \<times> string list \<times> string list) list \<Rightarrow> shapes_state
     \<Rightarrow> py_error + shapes_state" where
  "shapes_scan env triples st =
     (case shapes_files env (walk_paths triples) st of
        Inl e \<Rightarrow> Inl e
      | Inr st1 \<Rightarrow> shapes_finish st1)"

definition shapes_ligeofiles :: "os_env \<Rightarrow> string \<Rightarrow> shapes_state \<Rightarrow> py_error + shapes_state" where
  "shapes_ligeofiles env foldertarget st = shapes_scan env (walk env foldertarget) st"

section \<open>The file lists of \<open>DicoGIS.ligeofiles\<close>, by format\<close>

text \<open>
  Names for what the proofs talk about: the attribute that holds the candidates of a
  format, the branch of the \<open>if\<close>/\<open>elif\<close> chain that appends to it (a branch is
  reached when no earlier one matched), the test on a directory name, and the joined
  directory paths of a walk.
\<close>

datatype geo_format = Shapefile | MapInfoTable | KML | GML | GeoJSON | Raster

fun gis_list :: "geo_format \<Rightarrow> gis_state \<Rightarrow> string list" where
  "gis_list Shapefile st = li_shp st"
| "gis_list MapInfoTable st = li_tab st"
| "gis_list KML st = li_kml st"
| "gis_list GML st = li_gml st"
| "gis_list GeoJSON st = li_geoj st"
| "gis_list Raster st = li_raster st"

fun gis_sel :: "os_env \<Rightarrow> geo_format \<Rightarrow> string \<Rightarrow> bool" where
  "gis_sel env Shapefile p = shp_test env p"
| "gis_sel env MapInfoTable p = (\<not> shp_test env p \<and> tab_test env p)"
| "gis_sel env KML p = (\<not> shp_test env p \<and> \<not> tab_test env p \<and> snd (splitext (lower p)) = ''.kml'')"
| "gis_sel env GML p = (\<not> shp_test env p \<and> \<not> tab_test env p \<and> snd (splitext (lower p)) = ''.gml'')"
| "gis_sel env GeoJSON p = (\<not> shp_test env p \<and> \<not> tab_test env p \<and> snd (splitext (lower p)) = ''.geojson'')"
| "gis_sel env Raster p = (\<not> shp_test env p \<and> \<not> tab_test env p \<and> snd (splitext (lower p)) \<in> set li_raster_formats)"

definition gdb_test :: "string \<Rightarrow> bool" where
  "gdb_test full_path \<longleftrightarrow> lower (take_last4 full_path) = ''.gdb''"

definition walk_dirs :: "(string \<times> string list \<times> string list) list \<Rightarrow> string list" where
  "walk_dirs w = concat (map (\<lambda>(rootdir, dirs, files). map (path_join rootdir) dirs) w)"

section \<open>Python strings and formatting used by the readers\<close>

definition replace_underscores :: "string \<Rightarrow> string" where
  \<comment> \<open>\<open>s.replace('_', ' ')\<close>\<close>
  "replace_underscores s = map (\<lambda>c. if c = CHR ''_'' then CHR '' '' else c) s"

definition capitalize :: "string \<Rightarrow> string" where
  "capitalize s = (case s of [] \<Rightarrow> [] | c # cs \<Rightarrow> upper_char c # lower cs)"

definition py_slice :: "nat \<Rightarrow> nat \<Rightarrow> string \<Rightarrow> string" where
  \<comment> \<open>\<open>s[i:j]\<close> for \<open>0 \<le> i \<le> j\<close>\<close>
  "py_slice i j s = take (j - i) (drop i s)"

definition py_unicode :: "string \<Rightarrow> py_error + string" where
  \<comment> \<open>\<open>unicode(s)\<close> of a byte string: the ASCII codec\<close>
  "py_unicode s =
     (if list_all (\<lambda>c. (of_char c :: nat) < 128) s then Inr s else Inl UnicodeDecodeError)"

definition unicode_opt :: "string option \<Rightarrow> py_error + string" where
  \<comment> \<open>\<open>unicode(x)\<close> where \<open>x\<close> is a byte string or \<open>None\<close>\<close>
  "unicode_opt x = (case x of None \<Rightarrow> Inr ''None'' | Some s \<Rightarrow> py_unicode s)"

definition digit_char :: "nat \<Rightarrow> char" where
  "digit_char d = char_of (48 + d)"

fun str_nat :: "nat \<Rightarrow> string" where
  "str_nat n = (if n < 10 then [digit_char n] else str_nat (n div 10) @ [digit_char (n mod 10)])"

declare str_nat.simps [simp del]

definition py_round :: "real \<Rightarrow> nat \<Rightarrow> real" where
  \<comment> \<open>\<open>round(x, n)\<close> of Python 2, on reals: halves go away from zero\<close>
  "py_round x n =
     (let s = x * 10 ^ n
      in (if 0 \<le> s then of_int \<lfloor>s + 1 / 2\<rfloor> else - of_int \<lfloor>- s + 1 / 2\<rfloor>) / 10 ^ n)"

definition float_or_None :: "real option \<Rightarrow> pyval" where
  "float_or_None x = (case x of None \<Rightarrow> PNone | Some v \<Rightarrow> PFloat v)"

definition str_or_None :: "string option \<Rightarrow> pyval" where
  "str_or_None x = (case x of None \<Rightarrow> PNone | Some v \<Rightarrow> PStr v)"

section \<open>The GDAL and OGR objects that the readers query\<close>

text \<open>
  A spatial reference as \<open>osr\<close> holds it once the projection text of the dataset is
  imported and \<open>AutoIdentifyEPSG\<close> has run: the six tests (integers, 1 for yes) and
  the attribute values that the readers ask for, \<open>None\<close> where the node is absent.
\<close>

record srs_handle =
  IsCompound :: int
  IsGeocentric :: int
  IsGeographic :: int
  IsLocal :: int
  IsProjected :: int
  IsVertical :: int
  attr_PROJCS :: "string option"
  attr_PROJECTION :: "string option"
  attr_GEOGCS :: "string option"
  attr_AUTHORITY1 :: "string option"

record geo_transform =
  gt0 :: real
  gt1 :: real
  gt2 :: real
  gt3 :: real
  gt4 :: real
  gt5 :: real

text \<open>
  A band: \<open>Statistics\<close> is \<open>None\<close> when \<open>GetStatistics(True, True)\<close> raises, and
  the four numbers (minimum, maximum, mean, standard deviation) otherwise;
  \<open>ColorTableCount\<close> is \<open>None\<close> when the band has no colour table.
\<close>

record raster_band =
  DataTypeName :: string
  Minimum :: "real option"
  Maximum :: "real option"
  NoDataValue :: "real option"
  Statistics :: "(real \<times> real \<times> real \<times> real) option"
  Scale :: "real option"
  UnitType :: string
  ColorTableCount :: "int option"

record gdal_dataset =
  FileList :: "string list"
  Metadata :: "(string \<times> string) list"
  Description :: string
  RasterXSize :: int
  RasterYSize :: int
  Bands :: "raster_band list"
  GeoTransform :: geo_transform
  Projection :: srs_handle
  SubDatasets :: "string list"
  GCPCount :: int

definition RasterCount :: "gdal_dataset \<Rightarrow> int" where
  "RasterCount ds = int (length (Bands ds))"

definition GetRasterBand :: "gdal_dataset \<Rightarrow> nat \<Rightarrow> raster_band option" where
  \<comment> \<open>bands are numbered from 1; outside \<open>1..RasterCount\<close> there is no band\<close>
  "GetRasterBand ds i = (if 1 \<le> i \<and> i \<le> length (Bands ds) then Some (Bands ds ! (i - 1)) else None)"

definition md_get :: "gdal_dataset \<Rightarrow> string \<Rightarrow> string option" where
  \<comment> \<open>\<open>GetMetadata().get(key)\<close>\<close>
  "md_get ds k = map_of (Metadata ds) k"

record ogr_field =
  field_name :: string
  field_type_name :: string

record ogr_layer =
  layer_name :: string
  FeatureCount :: int
  layer_fields :: "ogr_field list"

record ogr_datasource =
  datasource_name :: string
  Layers :: "ogr_layer list"

datatype 'a opened = Raises | ReturnsNone | Opens 'a

text \<open>
  The library as the readers see it: what \<open>gdal.Open\<close> and \<open>ogr.Open\<close> do on a
  path, and the pair \<open>(err_type, err_msg)\<close> that the error handler of
  \<open>ReadGeoPDF\<close> holds after the raster part has been read.
\<close>

record gdal_lib =
  gdal_Open :: "string \<Rightarrow> gdal_dataset opened"
  ogr_Open :: "string \<Rightarrow> ogr_datasource opened"
  gdal_err :: "string \<Rightarrow> pyval"

type_synonym texts = "string \<Rightarrow> string option"

definition text_or_None :: "string option \<Rightarrow> string" where
  \<comment> \<open>\<open>unicode(t)\<close> where \<open>t\<close> is a text of the language file or \<open>None\<close>\<close>
  "text_or_None t = (case t of None \<Rightarrow> ''None'' | Some s \<Rightarrow> s)"

section \<open>The SRS type, as both readers compute it\<close>

definition srsmetod :: "srs_handle \<Rightarrow> texts \<Rightarrow> (int \<times> string option) list" where
  "srsmetod srs txt =
     [(IsCompound srs, txt ''srs_comp''),
      (IsGeocentric srs, txt ''srs_geoc''),
      (IsGeographic srs, txt ''srs_geog''),
      (IsLocal srs, txt ''srs_loca''),
      (IsProjected srs, txt ''srs_proj''),
      (IsVertical srs, txt ''srs_vert'')]"

text \<open>
  The loop \<open>for srsmet in srsmetod\<close>. The local variable \<open>typsrs\<close> is unbound
  (\<open>None\<close>) until an entry with flag 1 assigns it; there is no \<open>break\<close>.
\<close>

fun typsrs_loop :: "(int \<times> string option) list \<Rightarrow> string option option \<Rightarrow> string option option" where
  "typsrs_loop [] typsrs = typsrs"
| "typsrs_loop (srsmet # rest) typsrs =
     (if fst srsmet = 1 then typsrs_loop rest (Some (snd srsmet)) else typsrs_loop rest typsrs)"

section \<open>\<open>modules/InfosGDAL.py\<close>: class \<open>InfosRasters\<close>\<close>

text \<open>
  Each method returns the dictionary as the call leaves it and the exception that
  ends the call, if one does. \<open>self.rast\<close> is \<open>None\<close> when \<open>gdal.Open\<close> returned
  \<open>None\<close>; calling a method of \<open>None\<close> raises \<open>AttributeError\<close>.
\<close>

definition rasters_infos_basics ::
  "os_env \<Rightarrow> gdal_dataset option \<Rightarrow> string \<Rightarrow> pydict \<Rightarrow> pydict \<times> py_error option" where
  "rasters_infos_basics env rast rasterpath dico_raster =
     (let d1 = setitem ''name'' (PStr (basename rasterpath)) dico_raster;
          d2 = setitem ''folder'' (PStr (dirname rasterpath)) d1;
          d3 = setitem ''title''
                 (PStr (capitalize (replace_underscores (drop_last4 (basename rasterpath))))) d2
      in case rast of
           None \<Rightarrow> (d3, Some AttributeError)
         | Some ds \<Rightarrow>
            (let d4 = setitem ''dependencies''
                        (PList (map (\<lambda>filedepend. PStr (basename filedepend))
                                  (filter (\<lambda>filedepend. filedepend \<noteq> rasterpath) (FileList ds)))) d3;
                 d5 = setitem ''compr_rate'' (str_or_None (md_get ds ''COMPRESSION_RATE_TARGET'')) d4;
                 d6 = setitem ''color_ref'' (str_or_None (md_get ds ''COLORSPACE'')) d5;
                 d7 = setitem ''format_version''
                        (case md_get ds ''VERSION'' of
                           None \<Rightarrow> PStr []
                         | Some v \<Rightarrow> if v = [] then PStr [] else PStr (''(v'' @ v @ '')'')) d6;
                 d8 = setitem ''num_cols'' (PInt (RasterXSize ds)) d7;
                 d9 = setitem ''num_rows'' (PInt (RasterYSize ds)) d8;
                 d10 = setitem ''num_bands'' (PInt (RasterCount ds)) d9
             in case GetRasterBand ds 1 of
                  None \<Rightarrow> (d10, Some AttributeError)
                | Some band1 \<Rightarrow>
                   (let d11 = setitem ''data_type'' (PStr (DataTypeName band1)) d10
                    in case getmtime env rasterpath of
                         None \<Rightarrow> (d11, Some OSError)
                       | Some mtime \<Rightarrow>
                          (let d12 = setitem ''date_actu'' (PTime ''%Y-%m-%d'' mtime) d11
                           in case getctime env rasterpath of
                                None \<Rightarrow> (d12, Some OSError)
                              | Some ctime \<Rightarrow>
                                  (setitem ''date_crea'' (PTime ''%Y-%m-%d'' ctime) d12, None)))))"

definition rasters_srs_name :: "srs_handle \<Rightarrow> py_error + string" where
  \<comment> \<open>the \<open>try\<close> block on the name of the SRS and its \<open>except UnicodeDecodeError\<close>\<close>
  "rasters_srs_name srs =
     (case (case attr_PROJCS srs of
              Some projcs \<Rightarrow> py_unicode projcs
            | None \<Rightarrow> unicode_opt (attr_PROJECTION srs)) of
        Inr name \<Rightarrow> Inr (replace_underscores name)
      | Inl e \<Rightarrow>
          (if attr_PROJCS srs \<noteq> Some ''unnamed''
           then (case attr_PROJCS srs of
                   None \<Rightarrow> Inl AttributeError
                 | Some projcs \<Rightarrow> Inr (replace_underscores projcs))
           else (case attr_PROJECTION srs of
                   None \<Rightarrow> Inl AttributeError
                 | Some projection \<Rightarrow> Inr (replace_underscores projection))))"

definition rasters_infos_geom ::
  "gdal_dataset option \<Rightarrow> texts \<Rightarrow> pydict \<Rightarrow> pydict \<times> py_error option" where
  "rasters_infos_geom rast txt dico_raster =
     (case rast of
        None \<Rightarrow> (dico_raster, Some AttributeError)
      | Some ds \<Rightarrow>
         (let geotransform = GeoTransform ds;
              d1 = setitem ''xOrigin'' (PFloat (gt0 geotransform)) dico_raster;
              d2 = setitem ''yOrigin'' (PFloat (gt3 geotransform)) d1;
              d3 = setitem ''pixelWidth'' (PFloat (gt1 geotransform)) d2;
              d4 = setitem ''pixelHeight'' (PFloat (gt5 geotransform)) d3;
              d5 = setitem ''orientation'' (PFloat (gt2 geotransform)) d4;
              srs = Projection ds
          in case typsrs_loop (srsmetod srs txt) None of
               None \<Rightarrow> (d5, Some UnboundLocalError)
             | Some typsrs \<Rightarrow>
                (let d6 = setitem ''srs_type'' (PStr (text_or_None typsrs)) d5
                 in case rasters_srs_name srs of
                      Inl e \<Rightarrow> (d6, Some e)
                    | Inr name \<Rightarrow>
                       (let d7 = setitem ''srs'' (PStr name) d6
                        in case unicode_opt (attr_AUTHORITY1 srs) of
                             Inl e \<Rightarrow> (d7, Some e)
                           | Inr epsg \<Rightarrow> (setitem ''EPSG'' (PStr epsg) d7, None)))))"

definition rasters_infos_bands ::
  "gdal_dataset option \<Rightarrow> nat \<Rightarrow> pydict \<Rightarrow> pydict \<times> py_error option" where
  "rasters_infos_bands rast band dico_bands =
     (case rast of
        None \<Rightarrow> (dico_bands, Some AttributeError)
      | Some ds \<Rightarrow>
         (case GetRasterBand ds band of
            None \<Rightarrow> (dico_bands, Some AttributeError)
          | Some band_info \<Rightarrow>
             (let b1 = setitem (''band'' @ str_nat band @ ''_Min'') (float_or_None (Minimum band_info)) dico_bands;
                  b2 = setitem (''band'' @ str_nat band @ ''_Max'') (float_or_None (Maximum band_info)) b1
              in (setitem (''band'' @ str_nat band @ ''_NoData'')
                    (float_or_None (NoDataValue band_info)) b2, None))))"

fun rasters_bands_loop ::
  "gdal_dataset option \<Rightarrow> nat list \<Rightarrow> pydict \<Rightarrow> pydict \<times> py_error option" where
  "rasters_bands_loop rast [] dico_bands = (dico_bands, None)"
| "rasters_bands_loop rast (band # rest) dico_bands =
     (case rasters_infos_bands rast band dico_bands of
        (b, Some e) \<Rightarrow> (b, Some e)
      | (b, None) \<Rightarrow> rasters_bands_loop rast rest b)"

definition py_range1 :: "pyval \<Rightarrow> py_error + nat list" where
  \<comment> \<open>\<open>range(1, n)\<close>: the integers from 1 up to \<open>n - 1\<close>\<close>
  "py_range1 n = (case n of PInt k \<Rightarrow> Inr [1..<nat k] | _ \<Rightarrow> Inl TypeError)"

text \<open>
  \<open>InfosRasters(rasterpath, dico_raster, dico_bands, tipo, text)\<close>: the two
  dictionaries and \<open>self.alert\<close> after the constructor, and the exception that ends it,
  if one does.
\<close>

record rasters_result =
  res_raster :: pydict
  res_bands :: pydict
  res_alert :: nat
  res_raised :: "py_error option"

definition infos_rasters ::
  "os_env \<Rightarrow> gdal_lib \<Rightarrow> string \<Rightarrow> pydict \<Rightarrow> pydict \<Rightarrow> pyval \<Rightarrow> texts \<Rightarrow> rasters_result" where
  "infos_rasters env lib rasterpath dico_raster dico_bands tipo txt =
     (case gdal_Open lib rasterpath of
        Raises \<Rightarrow>
          \<lparr>res_raster = dico_raster, res_bands = dico_bands, res_alert = 0,
            res_raised = Some RuntimeError\<rparr>
      | opened \<Rightarrow>
         (let rast = (case opened of Opens ds \<Rightarrow> Some ds | _ \<Rightarrow> None);
              alert = (if rast = None then 1 else 0);
              d0 = setitem ''format'' tipo dico_raster
          in case rasters_infos_basics env rast rasterpath d0 of
               (d1, Some e) \<Rightarrow>
                 \<lparr>res_raster = d1, res_bands = dico_bands, res_alert = alert, res_raised = Some e\<rparr>
             | (d1, None) \<Rightarrow>
                (case rasters_infos_geom rast txt d1 of
                   (d2, Some e) \<Rightarrow>
                     \<lparr>res_raster = d2, res_bands = dico_bands, res_alert = alert, res_raised = Some e\<rparr>
                 | (d2, None) \<Rightarrow>
                    (case py_range1 (dict_get d2 ''num_bands'') of
                       Inl e \<Rightarrow>
                         \<lparr>res_raster = d2, res_bands = dico_bands, res_alert = alert,
                           res_raised = Some e\<rparr>
                     | Inr bands \<Rightarrow>
                        (case rasters_bands_loop rast bands dico_bands of
                           (b, raised) \<Rightarrow>
                             \<lparr>res_raster = d2, res_bands = b, res_alert = alert,
                               res_raised = raised\<rparr>)))))"

section \<open>\<open>modules/georeaders/Infos_GeoPDF.py\<close>: class \<open>ReadGeoPDF\<close>\<close>

text \<open>
  The module switches the exceptions of GDAL and OGR on, so asking for a band that the
  dataset does not have raises \<open>RuntimeError\<close>. Its string literals are unicode:
  formatting a byte string into one decodes it with the ASCII codec.
\<close>

definition format_arg :: "string option \<Rightarrow> py_error + string" where
  \<comment> \<open>one argument of \<open>u"...".format\<close>: a byte string or \<open>None\<close>\<close>
  "format_arg x = unicode_opt x"

definition geopdf_date_crea :: "string option \<Rightarrow> py_error + string" where
  \<comment> \<open>\<open>"{0}/{1}/{2}".format(creadate[8:10], creadate[6:8], creadate[2:6])\<close>\<close>
  "geopdf_date_crea creadate =
     (case creadate of
        None \<Rightarrow> Inl TypeError
      | Some c \<Rightarrow>
         (case py_unicode (py_slice 8 10 c) of
            Inl e \<Rightarrow> Inl e
          | Inr dd \<Rightarrow>
             (case py_unicode (py_slice 6 8 c) of
                Inl e \<Rightarrow> Inl e
              | Inr mm \<Rightarrow>
                 (case py_unicode (py_slice 2 6 c) of
                    Inl e \<Rightarrow> Inl e
                  | Inr yyyy \<Rightarrow> Inr (dd @ ''/'' @ mm @ ''/'' @ yyyy)))))"

definition geopdf_creator_prod :: "gdal_dataset \<Rightarrow> py_error + string" where
  \<comment> \<open>\<open>"{0} - {1}".format(geopdf_MD.get("CREATOR"), geopdf_MD.get("PRODUCER"))\<close>\<close>
  "geopdf_creator_prod ds =
     (case format_arg (md_get ds ''CREATOR'') of
        Inl e \<Rightarrow> Inl e
      | Inr creator \<Rightarrow>
         (case format_arg (md_get ds ''PRODUCER'') of
            Inl e \<Rightarrow> Inl e
          | Inr producer \<Rightarrow> Inr (creator @ '' - '' @ producer)))"

definition raster_basics ::
  "os_env \<Rightarrow> gdal_dataset \<Rightarrow> string \<Rightarrow> pydict \<Rightarrow> pydict \<times> py_error option" where
  "raster_basics env ds pdfpath dico_geopdf =
     (let d1 = setitem ''name'' (PStr (basename pdfpath)) dico_geopdf;
          d2 = setitem ''folder'' (PStr (dirname pdfpath)) d1;
          d3 = setitem ''title''
                 (PStr (capitalize (replace_underscores (drop_last4 (basename pdfpath))))) d2;
          dependencies = map basename (filter (\<lambda>filedepend. filedepend \<noteq> pdfpath) (FileList ds));
          appended = dependencies @ [pdfpath];
          d4 = setitem ''dependencies'' (PList (map PStr appended)) d3
      in case those (map (getsize env) appended) of
           None \<Rightarrow> (d4, Some OSError)
         | Some sizes \<Rightarrow>
            (let d5 = setitem ''total_size'' (prettify (real (sum_list sizes)) size_cats) d4;
                 d6 = setitem ''dependencies'' (PList (map PStr (butlast appended))) d5;
                 d7 = setitem ''title'' (str_or_None (md_get ds ''TITLE'')) d6
             in case geopdf_creator_prod ds of
                  Inl e \<Rightarrow> (d7, Some e)
                | Inr creator_prod \<Rightarrow>
                   (let d8 = setitem ''creator_prod'' (PStr creator_prod) d7;
                        d9 = setitem ''keywords'' (str_or_None (md_get ds ''KEYWORDS'')) d8;
                        d10 = setitem ''dpi'' (str_or_None (md_get ds ''DPI'')) d9;
                        d11 = setitem ''subject'' (str_or_None (md_get ds ''SUBJECT'')) d10;
                        d12 = setitem ''neatline'' (str_or_None (md_get ds ''NEATLINE'')) d11;
                        d13 = setitem ''description'' (PStr (Description ds)) d12
                    in case geopdf_date_crea (md_get ds ''CREATION_DATE'') of
                         Inl e \<Rightarrow> (d13, Some e)
                       | Inr date_crea \<Rightarrow>
                          (let d14 = setitem ''date_crea'' (PStr date_crea) d13;
                               d15 = setitem ''num_cols'' (PInt (RasterXSize ds)) d14;
                               d16 = setitem ''num_rows'' (PInt (RasterYSize ds)) d15;
                               d17 = setitem ''num_bands'' (PInt (RasterCount ds)) d16
                           in case GetRasterBand ds 1 of
                                None \<Rightarrow> (d17, Some RuntimeError)
                              | Some band1 \<Rightarrow>
                                 (let d18 = setitem ''data_type'' (PStr (DataTypeName band1)) d17;
                                      d19 = setitem ''subdatasets_count''
                                              (PInt (int (length (SubDatasets ds)))) d18;
                                      d20 = setitem ''gcp_count'' (PInt (GCPCount ds)) d19
                                  in case getmtime env pdfpath of
                                       None \<Rightarrow> (d20, Some OSError)
                                     | Some mtime \<Rightarrow>
                                         (setitem ''date_actu'' (PTime ''%d/%m/%Y'' mtime) d20,
                                          None))))))"

definition geopdf_srs_name :: "srs_handle \<Rightarrow> py_error + string" where
  \<comment> \<open>the two \<open>try\<close> blocks on the name of the SRS: \<open>PROJCS\<close> for a projected
      reference, \<open>GEOGCS\<close> otherwise\<close>
  "geopdf_srs_name srs =
     (let attr = (if IsProjected srs \<noteq> 0 then attr_PROJCS srs else attr_GEOGCS srs)
      in case (case attr of
                 Some a \<Rightarrow> py_unicode a
               | None \<Rightarrow> unicode_opt (attr_PROJECTION srs)) of
           Inr name \<Rightarrow> Inr (replace_underscores name)
         | Inl e \<Rightarrow>
             (if attr \<noteq> Some ''unnamed''
              then (case attr of
                      None \<Rightarrow> Inl AttributeError
                    | Some a \<Rightarrow> Inr (replace_underscores a))
              else (case attr_PROJECTION srs of
                      None \<Rightarrow> Inl AttributeError
                    | Some projection \<Rightarrow> Inr (replace_underscores projection))))"

definition geopdf_infos_geom :: "gdal_dataset \<Rightarrow> texts \<Rightarrow> pydict \<Rightarrow> pydict \<times> py_error option" where
  "geopdf_infos_geom ds txt dico_geopdf =
     (let geotransform = GeoTransform ds;
          d1 = setitem ''xOrigin'' (PFloat (gt0 geotransform)) dico_geopdf;
          d2 = setitem ''yOrigin'' (PFloat (gt3 geotransform)) d1;
          d3 = setitem ''pixelWidth'' (PFloat (py_round (gt1 geotransform) 3)) d2;
          d4 = setitem ''pixelHeight'' (PFloat (py_round (gt5 geotransform) 3)) d3;
          d5 = setitem ''orientation'' (PFloat (gt2 geotransform)) d4;
          srs = Projection ds;
          typsrs = (case typsrs_loop (srsmetod srs txt) None of
                      None \<Rightarrow> txt ''srs_nr''
                    | Some t \<Rightarrow> t);
          d6 = setitem ''srs_type'' (PStr (text_or_None typsrs)) d5
      in case geopdf_srs_name srs of
           Inl e \<Rightarrow> (d6, Some e)
         | Inr name \<Rightarrow>
            (let d7 = setitem ''srs'' (PStr name) d6
             in case unicode_opt (attr_AUTHORITY1 srs) of
                  Inl e \<Rightarrow> (d7, Some e)
                | Inr epsg \<Rightarrow> (setitem ''EPSG'' (PStr epsg) d7, None)))"

definition geopdf_infos_bands :: "gdal_dataset \<Rightarrow> nat \<Rightarrow> pydict \<Rightarrow> pydict \<times> py_error option" where
  "geopdf_infos_bands ds band dico_bands =
     (case GetRasterBand ds band of
        None \<Rightarrow> (dico_bands, Some RuntimeError)
      | Some band_info \<Rightarrow>
         (case Statistics band_info of
            None \<Rightarrow> (dico_bands, None)
          | Some (smin, smax, smean, sdev) \<Rightarrow>
             (let b1 = setitem (''band'' @ str_nat band @ ''_Min'')
                         (case Minimum band_info of None \<Rightarrow> PFloat smin | Some m \<Rightarrow> PFloat m)
                         dico_bands;
                  b2 = setitem (''band'' @ str_nat band @ ''_Max'')
                         (case Minimum band_info of
                            None \<Rightarrow> PFloat smax
                          | Some m \<Rightarrow> float_or_None (Maximum band_info)) b1;
                  b3 = setitem (''band'' @ str_nat band @ ''_Mean'') (PFloat (py_round smean 2)) b2;
                  b4 = setitem (''band'' @ str_nat band @ ''_Sdev'') (PFloat (py_round sdev 2)) b3;
                  b5 = setitem (''band'' @ str_nat band @ ''_NoData'')
                         (float_or_None (NoDataValue band_info)) b4;
                  b6 = setitem (''band'' @ str_nat band @ ''_Scale'')
                         (float_or_None (Scale band_info)) b5;
                  b7 = setitem (''band'' @ str_nat band @ ''_UnitType'') (PStr (UnitType band_info)) b6
              in (setitem (''band'' @ str_nat band @ ''_CTabCount'')
                    (case ColorTableCount band_info of None \<Rightarrow> PInt 0 | Some n \<Rightarrow> PInt n) b7,
                  None))))"

fun geopdf_bands_loop :: "gdal_dataset \<Rightarrow> nat list \<Rightarrow> pydict \<Rightarrow> pydict \<times> py_error option" where
  "geopdf_bands_loop ds [] dico_geopdf = (dico_geopdf, None)"
| "geopdf_bands_loop ds (band_idx # rest) dico_geopdf =
     (case geopdf_infos_bands ds band_idx [] of
        (dico_band, Some e) \<Rightarrow> (dico_geopdf, Some e)
      | (dico_band, None) \<Rightarrow>
          geopdf_bands_loop ds rest
            (setitem (''band_'' @ str_nat band_idx) (PDict dico_band) dico_geopdf))"

fun infos_fields :: "ogr_field list \<Rightarrow> pydict \<Rightarrow> pydict" where
  "infos_fields [] dico_fields = dico_fields"
| "infos_fields (champomy # rest) dico_fields =
     infos_fields rest (setitem (field_name champomy) (PStr (field_type_name champomy)) dico_fields)"

definition vector_basics :: "ogr_layer \<Rightarrow> pydict \<Rightarrow> pydict" where
  "vector_basics layer_obj dico_layer =
     (let l1 = setitem ''title'' (PStr (layer_name layer_obj)) dico_layer;
          l2 = setitem ''num_obj'' (PInt (FeatureCount layer_obj)) l1;
          l3 = setitem ''num_fields'' (PInt (int (length (layer_fields layer_obj)))) l2
      in setitem ''fields'' (PDict (infos_fields (layer_fields layer_obj) [])) l3)"

definition geopdf_layer :: "ogr_datasource \<Rightarrow> ogr_layer \<Rightarrow> pydict" where
  \<comment> \<open>the dictionary \<open>dico_layer\<close> of one turn of the loop on the layers\<close>
  "geopdf_layer geopdf_v layer_obj =
     vector_basics layer_obj [(''parent_name'', PStr (basename (datasource_name geopdf_v)))]"

fun geopdf_layers_loop ::
  "ogr_datasource \<Rightarrow> (nat \<times> ogr_layer) list \<Rightarrow> pydict \<Rightarrow> pydict" where
  "geopdf_layers_loop geopdf_v [] dico_geopdf = dico_geopdf"
| "geopdf_layers_loop geopdf_v ((layer_idx, layer_obj) # rest) dico_geopdf =
     geopdf_layers_loop geopdf_v rest
       (setitem (str_nat layer_idx @ ''_'' @ layer_name layer_obj)
          (PDict (geopdf_layer geopdf_v layer_obj)) dico_geopdf)"

definition geopdf_vector_layers :: "ogr_datasource \<Rightarrow> pydict \<Rightarrow> pydict" where
  \<comment> \<open>from \<open>layers_count\<close> to the two totals; the two lists stored before the loop are
      the objects that the loop appends to\<close>
  "geopdf_vector_layers geopdf_v dico_geopdf =
     (let layers = Layers geopdf_v;
          v1 = setitem ''layers_count'' (PInt (int (length layers))) dico_geopdf;
          v2 = setitem ''layers_names'' (PList (map (\<lambda>l. PStr (layer_name l)) layers)) v1;
          v3 = setitem ''layers_idx'' (PList (map (\<lambda>i. PInt (int i)) [0..<length layers])) v2;
          v4 = setitem ''total_fields'' (PInt 0) v3;
          v5 = setitem ''total_objs'' (PInt 0) v4;
          v6 = geopdf_layers_loop geopdf_v (zip [0..<length layers] layers) v5;
          v7 = setitem ''total_fields''
                 (PInt (sum_list (map (\<lambda>l. int (length (layer_fields l))) layers))) v6
      in setitem ''total_objs'' (PInt (sum_list (map FeatureCount layers))) v7)"

definition geopdf_raster_part ::
  "os_env \<Rightarrow> gdal_lib \<Rightarrow> gdal_dataset \<Rightarrow> string \<Rightarrow> pyval \<Rightarrow> texts \<Rightarrow> pydict
     \<Rightarrow> pydict \<times> py_error option" where
  \<comment> \<open>from \<open>dico_geopdf["format"] = tipo\<close> to \<open>dico_geopdf["err_gdal"]\<close>\<close>
  "geopdf_raster_part env lib ds pdfpath tipo txt dico_geopdf =
     (case raster_basics env ds pdfpath (setitem ''format'' tipo dico_geopdf) of
        (d1, Some e) \<Rightarrow> (d1, Some e)
      | (d1, None) \<Rightarrow>
         (case geopdf_infos_geom ds txt d1 of
            (d2, Some e) \<Rightarrow> (d2, Some e)
          | (d2, None) \<Rightarrow>
             (case geopdf_bands_loop ds [1..<length (Bands ds)] d2 of
                (d3, Some e) \<Rightarrow> (d3, Some e)
              | (d3, None) \<Rightarrow> (setitem ''err_gdal'' (gdal_err lib pdfpath) d3, None))))"

record geopdf_result =
  pdf_dico :: pydict
  pdf_alert :: nat
  pdf_raised :: "py_error option"

definition geopdf_vector_part :: "gdal_lib \<Rightarrow> string \<Rightarrow> pydict \<Rightarrow> geopdf_result" where
  \<comment> \<open>"READING INTO VECTORS LAYERS", entered with \<open>self.alert = 0\<close>\<close>
  "geopdf_vector_part lib pdfpath dico_geopdf =
     (case ogr_Open lib pdfpath of
        Raises \<Rightarrow>
          \<lparr>pdf_dico = geopdf_erratum dico_geopdf pdfpath (PStr ''err_corrupt''), pdf_alert = 1,
            pdf_raised = None\<rparr>
      | ReturnsNone \<Rightarrow>
          \<lparr>pdf_dico = dico_geopdf, pdf_alert = 0, pdf_raised = Some AttributeError\<rparr>
      | Opens geopdf_v \<Rightarrow>
          \<lparr>pdf_dico = geopdf_vector_layers geopdf_v dico_geopdf, pdf_alert = 0,
            pdf_raised = None\<rparr>)"

text \<open>
  \<open>ReadGeoPDF(pdfpath, dico_geopdf, tipo, txt)\<close>: the dictionary and \<open>self.alert\<close>
  after the constructor, and the exception that ends it, if one does.
\<close>

definition read_geopdf ::
  "os_env \<Rightarrow> gdal_lib \<Rightarrow> string \<Rightarrow> pydict \<Rightarrow> pyval \<Rightarrow> texts \<Rightarrow> geopdf_result" where
  "read_geopdf env lib pdfpath0 dico_geopdf tipo txt =
     (if \<not> isdir env (dirname pdfpath0) then
        \<lparr>pdf_dico = dico_geopdf, pdf_alert = 0, pdf_raised = Some OSError\<rparr>
      else
        (let pdfpath = abspath_after_chdir env (dirname pdfpath0) pdfpath0
         in case gdal_Open lib pdfpath of
              Raises \<Rightarrow>
                \<lparr>pdf_dico = geopdf_erratum dico_geopdf pdfpath (PStr ''err_incomp''),
                  pdf_alert = 1, pdf_raised = None\<rparr>
            | ReturnsNone \<Rightarrow>
                \<lparr>pdf_dico = geopdf_erratum dico_geopdf pdfpath (PStr ''err_incomp''),
                  pdf_alert = 1, pdf_raised = None\<rparr>
            | Opens ds \<Rightarrow>
               (case geopdf_raster_part env lib ds pdfpath tipo txt dico_geopdf of
                  (d, Some e) \<Rightarrow> \<lparr>pdf_dico = d, pdf_alert = 0, pdf_raised = Some e\<rparr>
                | (d, None) \<Rightarrow> geopdf_vector_part lib pdfpath d)))"

section \<open>Names used in the statements about the readers\<close>

definition matching :: "srs_handle \<Rightarrow> texts \<Rightarrow> (int \<times> string option) list" where
  \<comment> \<open>the entries of \<open>srsmetod\<close> whose test answers 1, in the order of the list\<close>
  "matching srs txt = filter (\<lambda>srsmet. fst srsmet = 1) (srsmetod srs txt)"

section \<open>Concrete inputs\<close>

text \<open>
  File systems, walks, spatial references, datasets and libraries at which the
  statements below are evaluated.
\<close>

definition env_missing_dep :: os_env where
  "env_missing_dep =
     \<lparr> isfile = (\<lambda>p. p = ''/data/a.shp''),
       isdir = (\<lambda>p. False),
       getsize = (\<lambda>p. if p = ''/data/a.shp'' then Some 100 else None),
       getmtime = (\<lambda>p. None),
       getctime = (\<lambda>p. None),
       realpath = (\<lambda>p. p),
       abspath = (\<lambda>p. p),
       abspath_after_chdir = (\<lambda>d p. p),
       walk = (\<lambda>p. []) \<rparr>"

definition env_two_files :: os_env where
  "env_two_files =
     \<lparr> isfile = (\<lambda>p. p = ''/data/a.shp'' \<or> p = ''/data/a.dbf''),
       isdir = (\<lambda>p. False),
       getsize = (\<lambda>p. if p = ''/data/a.shp'' then Some 100
                       else if p = ''/data/a.dbf'' then Some 28 else None),
       getmtime = (\<lambda>p. None),
       getctime = (\<lambda>p. None),
       realpath = (\<lambda>p. p),
       abspath = (\<lambda>p. p),
       abspath_after_chdir = (\<lambda>d p. p),
       walk = (\<lambda>p. []) \<rparr>"

definition env_gdb_tree :: os_env where
  "env_gdb_tree =
     \<lparr> isfile = (\<lambda>p. False),
       isdir = (\<lambda>p. p \<in> {''/r'', ''/r/b.gdb'', ''/r/a.gdb''}),
       getsize = (\<lambda>p. None),
       getmtime = (\<lambda>p. None),
       getctime = (\<lambda>p. None),
       realpath = (\<lambda>p. p),
       abspath = (\<lambda>p. p),
       abspath_after_chdir = (\<lambda>d p. p),
       walk = (\<lambda>p. if p = ''/r'' then [(''/r'', [''b.gdb'', ''a.gdb''], []),
                                            (''/r/b.gdb'', [], []), (''/r/a.gdb'', [], [])]
                     else []) \<rparr>"

definition env_mixed_case :: os_env where
  "env_mixed_case =
     \<lparr> isfile = (\<lambda>p. p \<in> {''/d/a.shp'', ''/d/a.Dbf'', ''/d/a.shx'', ''/d/a.prj''}),
       isdir = (\<lambda>p. p = ''/d''),
       getsize = (\<lambda>p. None),
       getmtime = (\<lambda>p. None),
       getctime = (\<lambda>p. None),
       realpath = (\<lambda>p. p),
       abspath = (\<lambda>p. p),
       abspath_after_chdir = (\<lambda>d p. p),
       walk = (\<lambda>p. if p = ''/d'' then [(''/d'', [], [''a.Dbf'', ''a.prj'', ''a.shp'', ''a.shx''])]
                     else []) \<rparr>"

definition env_complete :: os_env where
  "env_complete =
     \<lparr> isfile = (\<lambda>p. p \<in> {''/d/b.shp'', ''/d/b.DBF'', ''/d/b.shx'', ''/d/b.prj'',
                            ''/d/a.shp'', ''/d/a.dbf'', ''/d/a.shx'', ''/d/a.prj'', ''/d/c.shp'', ''/d/c.dbf''}),
       isdir = (\<lambda>p. p = ''/d''),
       getsize = (\<lambda>p. None),
       getmtime = (\<lambda>p. None),
       getctime = (\<lambda>p. None),
       realpath = (\<lambda>p. p),
       abspath = (\<lambda>p. p),
       abspath_after_chdir = (\<lambda>d p. p),
       walk = (\<lambda>p. if p = ''/d''
                     then [(''/d'', [], [''b.shp'', ''b.DBF'', ''b.shx'', ''b.prj'', ''c.shp'', ''c.dbf'',
                                         ''a.shp'', ''a.dbf'', ''a.shx'', ''a.prj''])]
                     else []) \<rparr>"

definition walk_two_dirs :: "(string \<times> string list \<times> string list) list" where
  "walk_two_dirs = [(''/d/y'', [], [''b.kml'']), (''/d/x'', [], [''a.kml''])]"

definition walk_two_dirs_rev :: "(string \<times> string list \<times> string list) list" where
  "walk_two_dirs_rev = [(''/d/x'', [], [''a.kml'']), (''/d/y'', [], [''b.kml''])]"

definition textos :: texts where
  \<comment> \<open>the test dictionary at the end of both reader modules\<close>
  "textos =
     map_of [(''srs_comp'', ''Compound''), (''srs_geoc'', ''Geocentric''),
             (''srs_geog'', ''Geographic''), (''srs_loca'', ''Local''),
             (''srs_proj'', ''Projected''), (''srs_vert'', ''Vertical''),
             (''geom_point'', ''Point''), (''geom_ligne'', ''Line''),
             (''geom_polyg'', ''Polygon'')]"

definition srs_none :: srs_handle where
  \<comment> \<open>the reference of a dataset without projection text\<close>
  "srs_none =
     \<lparr> IsCompound = 0, IsGeocentric = 0, IsGeographic = 0, IsLocal = 0, IsProjected = 0,
       IsVertical = 0, attr_PROJCS = None, attr_PROJECTION = None, attr_GEOGCS = None,
       attr_AUTHORITY1 = None \<rparr>"

definition srs_geog_proj :: srs_handle where
  \<comment> \<open>a reference that answers 1 to \<open>IsGeographic\<close> and to \<open>IsProjected\<close>\<close>
  "srs_geog_proj =
     \<lparr> IsCompound = 0, IsGeocentric = 0, IsGeographic = 1, IsLocal = 0, IsProjected = 1,
       IsVertical = 0, attr_PROJCS = Some ''RGF93_Lambert_93'', attr_PROJECTION = None,
       attr_GEOGCS = Some ''RGF93'', attr_AUTHORITY1 = Some ''2154'' \<rparr>"

definition srs_lambert :: srs_handle where
  "srs_lambert =
     \<lparr> IsCompound = 0, IsGeocentric = 0, IsGeographic = 0, IsLocal = 0, IsProjected = 1,
       IsVertical = 0, attr_PROJCS = Some ''RGF93_Lambert_93'',
       attr_PROJECTION = Some ''Lambert_Conformal_Conic_2SP'',
       attr_GEOGCS = Some ''RGF93'', attr_AUTHORITY1 = Some ''2154'' \<rparr>"

definition band_byte :: raster_band where
  "band_byte =
     \<lparr> DataTypeName = ''Byte'', Minimum = None, Maximum = None, NoDataValue = None,
       Statistics = Some (0, 255, 128, 64), Scale = Some 1, UnitType = [],
       ColorTableCount = None \<rparr>"

definition ds_with :: "string list \<Rightarrow> srs_handle \<Rightarrow> raster_band list \<Rightarrow> gdal_dataset" where
  \<comment> \<open>a dataset made of the given files, with the given reference and bands\<close>
  "ds_with files srs bands =
     \<lparr> FileList = files,
       Metadata = [(''CREATION_DATE'', ''D:20140218120000''), (''TITLE'', ''Plan cadastral'')],
       Description = ''raster'',
       RasterXSize = 200, RasterYSize = 100, Bands = bands,
       GeoTransform = \<lparr> gt0 = 600000, gt1 = 5, gt2 = 0, gt3 = 6800000, gt4 = 0, gt5 = - 5 \<rparr>,
       Projection = srs, SubDatasets = [], GCPCount = 0 \<rparr>"

definition tif_files :: "string list" where
  "tif_files = [''/data/ortho.tif'', ''/data/ortho.tfw'']"

definition pdf_files :: "string list" where
  "pdf_files = [''/data/plan.pdf'']"

definition env_data :: os_env where
  "env_data =
     \<lparr> isfile = (\<lambda>p. p \<in> {''/data/ortho.tif'', ''/data/ortho.tfw'', ''ortho.tfw'', ''/data/plan.pdf''}),
       isdir = (\<lambda>p. p = ''/data''),
       getsize = (\<lambda>p. if p \<in> {''/data/ortho.tif'', ''/data/plan.pdf''} then Some 2048
                       else if p \<in> {''/data/ortho.tfw'', ''ortho.tfw''} then Some 90 else None),
       getmtime = (\<lambda>p. Some 1400000000),
       getctime = (\<lambda>p. Some 1300000000),
       realpath = (\<lambda>p. p),
       abspath = (\<lambda>p. p),
       abspath_after_chdir = (\<lambda>d p. p),
       walk = (\<lambda>p. []) \<rparr>"

definition one_layer :: ogr_datasource where
  "one_layer =
     \<lparr> datasource_name = ''/data/plan.pdf'',
       Layers = [\<lparr> layer_name = ''parcelles'', FeatureCount = 12,
                   layer_fields = [\<lparr> field_name = ''id'', field_type_name = ''Integer'' \<rparr>] \<rparr>] \<rparr>"

definition lib_opens :: "gdal_dataset opened \<Rightarrow> ogr_datasource opened \<Rightarrow> gdal_lib" where
  \<comment> \<open>a library that answers the same on every path\<close>
  "lib_opens r v = \<lparr> gdal_Open = (\<lambda>p. r), ogr_Open = (\<lambda>p. v),
                     gdal_err = (\<lambda>p. PTuple [PInt 0, PStr []]) \<rparr>"

definition ds_plan :: gdal_dataset where
  \<comment> \<open>the raster view of \<open>/data/plan.pdf\<close>: two bands, Lambert 93\<close>
  "ds_plan = ds_with pdf_files srs_lambert [band_byte, band_byte]"

definition plan_raster_fields :: pydict where
  \<comment> \<open>what the raster part of \<open>ReadGeoPDF\<close> stores for \<open>ds_plan\<close>\<close>
  "plan_raster_fields =
     [(''format'', PStr ''pdf''), (''name'', PStr ''plan.pdf''),
      (''folder'', PStr ''/data''), (''title'', PStr ''Plan cadastral''),
      (''dependencies'', PList []), (''total_size'', PFmt31 2 ''Ko''),
      (''creator_prod'', PStr ''None - None''), (''keywords'', PNone),
      (''dpi'', PNone), (''subject'', PNone), (''neatline'', PNone),
      (''description'', PStr ''raster''), (''date_crea'', PStr ''18/02/2014''),
      (''num_cols'', PInt 200), (''num_rows'', PInt 100),
      (''num_bands'', PInt 2), (''data_type'', PStr ''Byte''),
      (''subdatasets_count'', PInt 0), (''gcp_count'', PInt 0),
      (''date_actu'', PTime ''%d/%m/%Y'' 1400000000),
      (''xOrigin'', PFloat 600000), (''yOrigin'', PFloat 6800000),
      (''pixelWidth'', PFloat 5), (''pixelHeight'', PFloat (- 5)),
      (''orientation'', PFloat 0), (''srs_type'', PStr ''Projected''),
      (''srs'', PStr ''RGF93 Lambert 93''), (''EPSG'', PStr ''2154''),
      (''band_1'',
       PDict [(''band1_Min'', PFloat 0), (''band1_Max'', PFloat 255),
              (''band1_Mean'', PFloat 128), (''band1_Sdev'', PFloat 64),
              (''band1_NoData'', PNone), (''band1_Scale'', PFloat 1),
              (''band1_UnitType'', PStr []), (''band1_CTabCount'', PInt 0)]),
      (''err_gdal'', PTuple [PInt 0, PStr []])]"

section \<open>Band keys\<close>

text \<open>
  The keys that \<open>InfosRasters.infos_bands\<close> writes for one band, and the number
  that a string of decimal digits stands for.
\<close>

definition nat_of_str :: "string \<Rightarrow> nat" where
  "nat_of_str s = foldl (\<lambda>a c. 10 * a + ((of_char c :: nat) - 48)) 0 s"

definition band_keys :: "nat \<Rightarrow> string set" where
  "band_keys b = {''band'' @ str_nat b @ ''_Min'', ''band'' @ str_nat b @ ''_Max'',
                  ''band'' @ str_nat b @ ''_NoData''}"

section \<open>Properties of \<open>Utils.sizeof\<close>\<close>

lemma those_map_Some:
  "(\<forall>x \<in> set xs. f x \<noteq> None) \<Longrightarrow> \<exists>ys. those (map f xs) = Some ys"
  by (induction xs) auto

lemma those_map_None:
  "x \<in> set xs \<Longrightarrow> f x = None \<Longrightarrow> those (map f xs) = None"
  by (induction xs) (auto split: option.splits)

text \<open>
  C10, as stated: whenever the source path is an existing file, the list of
  dependencies is the same after the call as before it. This fails when
  \<open>getsize\<close> raises on one of the listed dependencies: the exception leaves the
  function before \<open>pop\<close>, and the source path stays appended.
\<close>

theorem sizeof_keeps_dependencies_counterexample:
  "isfile env_missing_dep ''/data/a.shp'' \<and>
   fst (sizeof env_missing_dep ''/data/a.shp'' [''a.dbf'']) \<noteq> [''a.dbf''] \<and>
   sizeof env_missing_dep ''/data/a.shp'' [''a.dbf'']
     = ([''a.dbf'', ''/data/a.shp''], Inl OSError)"
  by (simp add: sizeof_def env_missing_dep_def)

text \<open>
  C10, amended: when the source path is an existing file and \<open>getsize\<close> succeeds on
  every listed dependency and on the source path, the call returns a size and the
  list of dependencies has the same contents after the call as before it.
\<close>

theorem sizeof_keeps_dependencies:
  assumes "isfile env source_path"
    and "\<forall>f \<in> set dependencies \<union> {source_path}. getsize env f \<noteq> None"
  shows "\<exists>r. sizeof env source_path dependencies = (dependencies, Inr r)"
proof -
  from assms(2) have "\<forall>f \<in> set (dependencies @ [source_path]). getsize env f \<noteq> None"
    by simp
  then obtain sizes where "those (map (getsize env) (dependencies @ [source_path])) = Some sizes"
    using those_map_Some by blast
  with assms(1) show ?thesis
    by (simp add: sizeof_def)
qed

text \<open>
  The other case: when \<open>getsize\<close> raises on a listed dependency, \<open>OSError\<close> leaves
  the function and the list keeps the source path at its end.
\<close>

lemma sizeof_raises_keeps_appended:
  assumes "isfile env source_path" and "f \<in> set dependencies" and "getsize env f = None"
  shows "sizeof env source_path dependencies = (dependencies @ [source_path], Inl OSError)"
proof -
  from assms(2) have "f \<in> set (dependencies @ [source_path])"
    by simp
  then have "those (map (getsize env) (dependencies @ [source_path])) = None"
    using assms(3) by (rule those_map_None)
  with assms(1) show ?thesis
    by (simp add: sizeof_def)
qed

theorem sizeof_keeps_dependencies_witness:
  "sizeof env_two_files ''/data/a.shp'' [''/data/a.dbf'']
     = ([''/data/a.dbf''], Inr (PFmt31 128 ''octets''))"
proof -
  have a: "isfile env_two_files ''/data/a.shp''"
    by (simp add: env_two_files_def)
  have b: "\<forall>f \<in> set [''/data/a.dbf''] \<union> {''/data/a.shp''}. getsize env_two_files f \<noteq> None"
    by (simp add: env_two_files_def)
  from sizeof_keeps_dependencies [OF a b]
  obtain r where "sizeof env_two_files ''/data/a.shp'' [''/data/a.dbf''] = ([''/data/a.dbf''], Inr r)"
    by blast
  moreover have "snd (sizeof env_two_files ''/data/a.shp'' [''/data/a.dbf'']) = Inr (PFmt31 128 ''octets'')"
    by (simp add: sizeof_def env_two_files_def size_cats_def)
  ultimately show ?thesis by simp
qed

section \<open>Properties of the folder walks\<close>

lemma gis_file_step_list:
  "gis_list fmt (gis_file_step env p st) = gis_list fmt st @ filter (gis_sel env fmt) [p]"
  by (cases fmt) (auto simp: gis_file_step_def li_raster_formats_def)

lemma gis_files_list:
  "gis_list fmt (fold (gis_file_step env) ps st) = gis_list fmt st @ filter (gis_sel env fmt) ps"
  by (induction ps arbitrary: st) (simp_all add: gis_file_step_list)

lemma gis_dir_step_list: "gis_list fmt (gis_dir_step env d st) = gis_list fmt st"
  by (cases fmt) (simp_all add: gis_dir_step_def)

lemma gis_dirs_list: "gis_list fmt (fold (gis_dir_step env) ds st) = gis_list fmt st"
  by (induction ds arbitrary: st) (simp_all add: gis_dir_step_list)

lemma gis_list_num_folders: "gis_list fmt (st\<lparr>num_folders := n\<rparr>) = gis_list fmt st"
  by (cases fmt) simp_all

lemma gis_triple_step_list:
  "gis_list fmt (gis_triple_step env (r, ds, fs) st)
     = gis_list fmt st @ filter (gis_sel env fmt) (map (path_join r) fs)"
  by (simp add: gis_triple_step_def gis_files_list gis_dirs_list gis_list_num_folders)

lemma walk_paths_Cons: "walk_paths ((r, ds, fs) # w) = map (path_join r) fs @ walk_paths w"
  by (simp add: walk_paths_def)

lemma gis_triples_list:
  "gis_list fmt (fold (gis_triple_step env) w st)
     = gis_list fmt st @ filter (gis_sel env fmt) (walk_paths w)"
proof (induction w arbitrary: st)
  case Nil
  then show ?case by (simp add: walk_paths_def)
next
  case (Cons t w)
  obtain r ds fs where t: "t = (r, ds, fs)" by (cases t)
  show ?case
    by (simp add: Cons.IH t gis_triple_step_list walk_paths_Cons)
qed

lemma gis_list_reset: "gis_list fmt (gis_reset st) = []"
  by (cases fmt) (simp_all add: gis_reset_def)

lemma gis_list_sort: "gis_list fmt (gis_sort st) = sort (gis_list fmt st)"
  by (cases fmt) (simp_all add: gis_sort_def)

lemma gis_scan_list:
  "gis_list fmt (gis_scan env w st) = sort (filter (gis_sel env fmt) (walk_paths w))"
  by (simp add: gis_scan_def gis_list_sort gis_triples_list gis_list_reset)

lemma sort_mset_eq: "mset xs = mset ys \<Longrightarrow> sort xs = sort (ys :: string list)"
  by (simp add: properties_for_sort)

lemma lower_char_idem: "lower_char (lower_char c) = lower_char c"
  by (auto simp: lower_char_def Let_def)

lemma gis_file_step_gdb: "li_gdb (gis_file_step env p st) = li_gdb st"
  by (simp add: gis_file_step_def)

lemma gis_files_gdb: "li_gdb (fold (gis_file_step env) ps st) = li_gdb st"
  by (induction ps arbitrary: st) (simp_all add: gis_file_step_gdb)

lemma gis_dirs_gdb:
  "li_gdb (fold (gis_dir_step env) ds st)
     = li_gdb st @ map (abspath env) (filter gdb_test ds)"
  by (induction ds arbitrary: st) (simp_all add: gis_dir_step_def gdb_test_def)

lemma gis_triple_step_gdb:
  "li_gdb (gis_triple_step env (r, ds, fs) st)
     = li_gdb st @ map (abspath env) (filter gdb_test (map (path_join r) ds))"
  by (simp add: gis_triple_step_def gis_files_gdb gis_dirs_gdb)

lemma walk_dirs_Cons: "walk_dirs ((r, ds, fs) # w) = map (path_join r) ds @ walk_dirs w"
  by (simp add: walk_dirs_def)

lemma gis_triples_gdb:
  "li_gdb (fold (gis_triple_step env) w st)
     = li_gdb st @ map (abspath env) (filter gdb_test (walk_dirs w))"
proof (induction w arbitrary: st)
  case Nil
  then show ?case by (simp add: walk_dirs_def)
next
  case (Cons t w)
  obtain r ds fs where t: "t = (r, ds, fs)" by (cases t)
  show ?case
    by (simp add: Cons.IH t gis_triple_step_gdb walk_dirs_Cons)
qed

lemma gis_scan_gdb:
  "li_gdb (gis_scan env w st)
     = li_gdb st @ map (abspath env) (filter gdb_test (walk_dirs w))"
  by (simp add: gis_scan_def gis_sort_def gis_triples_gdb gis_reset_def)

lemma shapes_files_lists:
  "shapes_li_shp st = PyList a \<Longrightarrow> shapes_li_tab st = PyList b \<Longrightarrow>
   shapes_files env ps st =
     Inr (st\<lparr>shapes_li_shp := PyList (a @ filter (shapes_shp_test env) ps),
             shapes_li_tab := PyList (b @ filter (\<lambda>p. \<not> shapes_shp_test env p \<and> shapes_tab_test env p) ps)\<rparr>)"
  by (induction ps arbitrary: st a b) auto

lemma shapes_files_tuples:
  "shapes_li_shp st = PyTuple a \<Longrightarrow> shapes_li_tab st = PyTuple b \<Longrightarrow>
   shapes_files env ps st = Inl AttributeError \<or> shapes_files env ps st = Inr st"
  by (induction ps arbitrary: st) auto

lemma shapes_scan_init:
  "shapes_scan env w shapes_init =
     Inr \<lparr> shapes_li_shp = PyTuple (sort (filter (shapes_shp_test env) (walk_paths w))),
           shapes_li_tab = PyTuple (sort (filter (\<lambda>p. \<not> shapes_shp_test env p \<and> shapes_tab_test env p) (walk_paths w))) \<rparr>"
  by (simp add: shapes_scan_def shapes_files_lists [where a="[]" and b="[]"] shapes_init_def shapes_finish_def)

lemma shapes_scan_tuples:
  assumes "shapes_li_shp st = PyTuple a" and "shapes_li_tab st = PyTuple b"
  shows "shapes_scan env w st = Inl AttributeError"
  using shapes_files_tuples [OF assms, of env "walk_paths w"] assms
  by (auto simp: shapes_scan_def shapes_finish_def)

lemma shapes_second_run_raises:
  "\<exists>st1. shapes_ligeofiles env t shapes_init = Inr st1 \<and> shapes_ligeofiles env t st1 = Inl AttributeError"
  by (simp add: shapes_ligeofiles_def shapes_scan_init shapes_scan_tuples)

lemma lower_lower: "lower (lower s) = lower s"
  by (simp add: lower_def lower_char_idem)

lemma of_char_lower_char:
  "(of_char (lower_char x) :: nat)
     = (if 65 \<le> (of_char x :: nat) \<and> (of_char x :: nat) \<le> 90 then of_char x + 32 else of_char x)"
  by (simp add: lower_char_def Let_def)

lemma lower_char_eq_sep: "lower_char x = CHR ''/'' \<longleftrightarrow> x = CHR ''/''"
proof -
  have "lower_char x = CHR ''/'' \<longleftrightarrow> (of_char (lower_char x) :: nat) = of_char CHR ''/''"
    by (simp only: of_char_eq_iff)
  also have "\<dots> \<longleftrightarrow> (of_char x :: nat) = of_char CHR ''/''"
    by (simp add: of_char_lower_char)
  also have "\<dots> \<longleftrightarrow> x = CHR ''/''"
    by (simp only: of_char_eq_iff)
  finally show ?thesis .
qed

lemma lower_char_eq_dot: "lower_char x = CHR ''.'' \<longleftrightarrow> x = CHR ''.''"
proof -
  have "lower_char x = CHR ''.'' \<longleftrightarrow> (of_char (lower_char x) :: nat) = of_char CHR ''.''"
    by (simp only: of_char_eq_iff)
  also have "\<dots> \<longleftrightarrow> (of_char x :: nat) = of_char CHR ''.''"
    by (simp add: of_char_lower_char)
  also have "\<dots> \<longleftrightarrow> x = CHR ''.''"
    by (simp only: of_char_eq_iff)
  finally show ?thesis .
qed

lemma rfind1_map:
  assumes "\<And>x. f x = c \<longleftrightarrow> x = c"
  shows "rfind1 c (map f p) = rfind1 c p"
proof -
  have "(\<lambda>x. x \<noteq> c) \<circ> f = (\<lambda>x. x \<noteq> c)"
    using assms by auto
  then show ?thesis
    by (simp add: rfind1_def rev_map dropWhile_map)
qed

lemma rfind1_lower_sep: "rfind1 CHR ''/'' (map lower_char p) = rfind1 CHR ''/'' p"
  by (rule rfind1_map) (rule lower_char_eq_sep)

lemma rfind1_lower_dot: "rfind1 CHR ''.'' (map lower_char p) = rfind1 CHR ''.'' p"
  by (rule rfind1_map) (rule lower_char_eq_dot)

lemma list_ex_not_dot_lower:
  "list_ex (\<lambda>c. c \<noteq> CHR ''.'') (map lower_char xs) = list_ex (\<lambda>c. c \<noteq> CHR ''.'') xs"
  by (induction xs) (simp_all add: lower_char_eq_dot)

lemma splitext_lower:
  "splitext (lower p) = (lower (fst (splitext p)), lower (snd (splitext p)))"
  by (simp add: splitext_def lower_def rfind1_lower_sep rfind1_lower_dot Let_def
      take_map drop_map list_ex_not_dot_lower)

lemma gis_ext: "lower (snd (splitext (lower p))) = lower (snd (splitext p))"
  by (simp add: splitext_lower lower_lower)

lemma snd_splitext_lower: "snd (splitext (lower p)) = lower (snd (splitext p))"
  by (simp add: splitext_lower)

lemma gis_scan_set:
  "set (gis_list fmt (gis_scan env w st)) = {p \<in> set (walk_paths w). gis_sel env fmt p}"
  by (simp add: gis_scan_list)

lemma shp_not_elsewhere:
  assumes "lower (snd (splitext p)) = ''.shp''" and "fmt \<noteq> Shapefile"
  shows "\<not> gis_sel env fmt p"
  using assms
  by (cases fmt) (simp_all add: snd_splitext_lower tab_test_def li_raster_formats_def)

text \<open>
  C5, amended: a file of the walk whose extension is \<open>.shp\<close> in any letter case is
  put by \<open>DicoGIS.ligeofiles\<close> in the Shapefile list if and only if, for each of
  \<open>dbf\<close>, \<open>shx\<close> and \<open>prj\<close>, \<open>isfile\<close> finds the path with its last four
  characters replaced by the extension in lower case or by the extension in upper case;
  whatever its sidecars, it goes to no other list. \<open>DicoShapes.ligeofiles\<close> takes a
  file whose extension is exactly \<open>.shp\<close> if and only if the three sidecars with
  lower-case extensions are files, and never puts it among the MapInfo tables.
\<close>

theorem shapefile_sidecars:
  assumes "p \<in> set (walk_paths (walk env foldertarget))"
  shows "(lower (snd (splitext p)) = ''.shp'' \<longrightarrow>
            (p \<in> set (li_shp (ligeofiles env foldertarget st)) \<longleftrightarrow>
               (isfile env (drop_last4 p @ ''.dbf'') \<or> isfile env (drop_last4 p @ ''.DBF'')) \<and>
               (isfile env (drop_last4 p @ ''.shx'') \<or> isfile env (drop_last4 p @ ''.SHX'')) \<and>
               (isfile env (drop_last4 p @ ''.prj'') \<or> isfile env (drop_last4 p @ ''.PRJ''))) \<and>
            p \<notin> set (li_tab (ligeofiles env foldertarget st)) \<and>
            p \<notin> set (li_kml (ligeofiles env foldertarget st)) \<and>
            p \<notin> set (li_gml (ligeofiles env foldertarget st)) \<and>
            p \<notin> set (li_geoj (ligeofiles env foldertarget st)) \<and>
            p \<notin> set (li_raster (ligeofiles env foldertarget st))) \<and>
         (snd (splitext p) = ''.shp'' \<longrightarrow>
            (\<exists>st'. shapes_ligeofiles env foldertarget shapes_init = Inr st' \<and>
               (p \<in> set (items (shapes_li_shp st')) \<longleftrightarrow>
                  isfile env (drop_last4 p @ ''.dbf'') \<and>
                  isfile env (drop_last4 p @ ''.shx'') \<and>
                  isfile env (drop_last4 p @ ''.prj'')) \<and>
               p \<notin> set (items (shapes_li_tab st'))))"
proof (intro conjI impI)
  assume ext: "lower (snd (splitext p)) = ''.shp''"
  have "set (li_shp (ligeofiles env foldertarget st))
          = {q \<in> set (walk_paths (walk env foldertarget)). shp_test env q}"
    using gis_scan_set [of Shapefile env "walk env foldertarget" st]
    by (simp add: ligeofiles_def)
  with assms ext
  show "p \<in> set (li_shp (ligeofiles env foldertarget st)) \<longleftrightarrow>
          (isfile env (drop_last4 p @ ''.dbf'') \<or> isfile env (drop_last4 p @ ''.DBF'')) \<and>
          (isfile env (drop_last4 p @ ''.shx'') \<or> isfile env (drop_last4 p @ ''.SHX'')) \<and>
          (isfile env (drop_last4 p @ ''.prj'') \<or> isfile env (drop_last4 p @ ''.PRJ''))"
    by (simp add: shp_test_def gis_ext)
  have other: "p \<notin> set (gis_list fmt (ligeofiles env foldertarget st))"
    if "fmt \<noteq> Shapefile" for fmt
    using shp_not_elsewhere [OF ext that, of env]
    by (simp add: ligeofiles_def gis_scan_set)
  show "p \<notin> set (li_tab (ligeofiles env foldertarget st))"
    using other [of MapInfoTable] by simp
  show "p \<notin> set (li_kml (ligeofiles env foldertarget st))"
    using other [of KML] by simp
  show "p \<notin> set (li_gml (ligeofiles env foldertarget st))"
    using other [of GML] by simp
  show "p \<notin> set (li_geoj (ligeofiles env foldertarget st))"
    using other [of GeoJSON] by simp
  show "p \<notin> set (li_raster (ligeofiles env foldertarget st))"
    using other [of Raster] by simp
next
  assume ext: "snd (splitext p) = ''.shp''"
  with assms
  show "\<exists>st'. shapes_ligeofiles env foldertarget shapes_init = Inr st' \<and>
          (p \<in> set (items (shapes_li_shp st')) \<longleftrightarrow>
             isfile env (drop_last4 p @ ''.dbf'') \<and>
             isfile env (drop_last4 p @ ''.shx'') \<and>
             isfile env (drop_last4 p @ ''.prj'')) \<and>
          p \<notin> set (items (shapes_li_tab st'))"
    by (simp add: shapes_ligeofiles_def shapes_scan_init shapes_shp_test_def shapes_tab_test_def)
qed

lemma walk_mixed: "walk_paths (walk env_mixed_case ''/d'') = [''/d/a.Dbf'', ''/d/a.prj'', ''/d/a.shp'', ''/d/a.shx'']"
  by (simp add: env_mixed_case_def walk_paths_def path_join_def)

lemma splitext_a_shp: "splitext ''/d/a.shp'' = (''/d/a'', ''.shp'')"
  by (simp add: splitext_def rfind1_def)

text \<open>
  C5, as stated, accepts any letter case of a sidecar extension. On a file system that
  tells letter cases apart, a shapefile whose table is \<open>a.Dbf\<close> has all three
  siblings, and \<open>DicoGIS.ligeofiles\<close> leaves it out: only \<open>.dbf\<close> and
  \<open>.DBF\<close> are looked for.
\<close>

theorem shapefile_case_insensitive_counterexample:
  "''/d/a.shp'' \<in> set (walk_paths (walk env_mixed_case ''/d'')) \<and>
   snd (splitext ''/d/a.shp'') = ''.shp'' \<and>
   isfile env_mixed_case ''/d/a.Dbf'' \<and> lower ''.Dbf'' = ''.dbf'' \<and>
   isfile env_mixed_case ''/d/a.shx'' \<and>
   isfile env_mixed_case ''/d/a.prj'' \<and>
   ''/d/a.shp'' \<notin> set (li_shp (ligeofiles env_mixed_case ''/d'' gis_init))"
proof -
  have "\<not> shp_test env_mixed_case ''/d/a.shp''"
    by (simp add: shp_test_def env_mixed_case_def drop_last4_def)
  then have "''/d/a.shp'' \<notin> set (li_shp (ligeofiles env_mixed_case ''/d'' gis_init))"
    using gis_scan_set [of Shapefile env_mixed_case "walk env_mixed_case ''/d''" gis_init]
    by (simp add: ligeofiles_def)
  moreover have "isfile env_mixed_case ''/d/a.Dbf''" "isfile env_mixed_case ''/d/a.shx''"
    "isfile env_mixed_case ''/d/a.prj''"
    by (simp_all add: env_mixed_case_def)
  moreover have "lower ''.Dbf'' = ''.dbf''"
    by code_simp
  ultimately show ?thesis
    by (simp add: walk_mixed splitext_a_shp)
qed

lemma walk_complete:
  "walk_paths (walk env_complete ''/d'')
     = [''/d/b.shp'', ''/d/b.DBF'', ''/d/b.shx'', ''/d/b.prj'', ''/d/c.shp'', ''/d/c.dbf'',
        ''/d/a.shp'', ''/d/a.dbf'', ''/d/a.shx'', ''/d/a.prj'']"
  by (simp add: env_complete_def walk_paths_def path_join_def)

lemma splitext_b_shp: "splitext ''/d/b.shp'' = (''/d/b'', ''.shp'')"
  by (simp add: splitext_def rfind1_def)

lemma splitext_c_shp: "splitext ''/d/c.shp'' = (''/d/c'', ''.shp'')"
  by (simp add: splitext_def rfind1_def)

theorem shapefile_sidecars_witness:
  "''/d/b.shp'' \<in> set (li_shp (ligeofiles env_complete ''/d'' gis_init)) \<and>
   ''/d/c.shp'' \<notin> set (li_shp (ligeofiles env_complete ''/d'' gis_init)) \<and>
   ''/d/c.shp'' \<notin> set (li_raster (ligeofiles env_complete ''/d'' gis_init)) \<and>
   (\<exists>st'. shapes_ligeofiles env_complete ''/d'' shapes_init = Inr st' \<and>
      ''/d/b.shp'' \<notin> set (items (shapes_li_shp st')))"
proof -
  have b: "''/d/b.shp'' \<in> set (walk_paths (walk env_complete ''/d''))"
    and c: "''/d/c.shp'' \<in> set (walk_paths (walk env_complete ''/d''))"
    by (simp_all add: walk_complete)
  have lo: "lower ''.shp'' = ''.shp''"
    by code_simp
  have fb: "isfile env_complete (drop_last4 ''/d/b.shp'' @ ''.DBF'')"
       "isfile env_complete (drop_last4 ''/d/b.shp'' @ ''.shx'')"
       "isfile env_complete (drop_last4 ''/d/b.shp'' @ ''.prj'')"
       "\<not> isfile env_complete (drop_last4 ''/d/b.shp'' @ ''.dbf'')"
       "\<not> isfile env_complete (drop_last4 ''/d/c.shp'' @ ''.shx'')"
       "\<not> isfile env_complete (drop_last4 ''/d/c.shp'' @ ''.SHX'')"
    by (simp_all add: env_complete_def drop_last4_def)
  show ?thesis
    using shapefile_sidecars [OF b, of gis_init] shapefile_sidecars [OF c, of gis_init]
    by (auto simp: splitext_b_shp splitext_c_shp lo fb)
qed

text \<open>
  The lists of files: after one run of \<open>DicoGIS.ligeofiles\<close> on the triples
  \<open>w\<close> of the walk, the list of each file format (Shapefile, MapInfo table, KML, GML,
  GeoJSON, raster) is sorted ascending, holds exactly the files of the walk that reach
  the branch of that format, holds each of them once when the walk lists no path
  twice, and is the same for every other order \<open>w'\<close> of the walk. The same holds for
  the two lists of \<open>DicoShapes.ligeofiles\<close> run on a new object.
\<close>

theorem file_lists_sorted_once:
  "sorted (gis_list fmt (gis_scan env w st)) \<and>
   set (gis_list fmt (gis_scan env w st)) = {p \<in> set (walk_paths w). gis_sel env fmt p} \<and>
   (distinct (walk_paths w) \<longrightarrow> distinct (gis_list fmt (gis_scan env w st))) \<and>
   (mset (walk_paths w') = mset (walk_paths w) \<longrightarrow>
      gis_list fmt (gis_scan env w' st') = gis_list fmt (gis_scan env w st)) \<and>
   (\<exists>s1 s2. shapes_scan env w shapes_init
        = Inr \<lparr>shapes_li_shp = PyTuple s1, shapes_li_tab = PyTuple s2\<rparr> \<and>
      sorted s1 \<and> sorted s2 \<and>
      set s1 = {p \<in> set (walk_paths w). shapes_shp_test env p} \<and>
      set s2 = {p \<in> set (walk_paths w). \<not> shapes_shp_test env p \<and> shapes_tab_test env p} \<and>
      (distinct (walk_paths w) \<longrightarrow> distinct s1 \<and> distinct s2) \<and>
      (mset (walk_paths w') = mset (walk_paths w) \<longrightarrow>
         shapes_scan env w' shapes_init = shapes_scan env w shapes_init))"
proof -
  have perm: "sort (filter P (walk_paths w')) = sort (filter P (walk_paths w))"
    if "mset (walk_paths w') = mset (walk_paths w)" for P
  proof -
    from that have "mset (filter P (walk_paths w')) = mset (filter P (walk_paths w))"
      by simp
    then show ?thesis
      by (rule sort_mset_eq)
  qed
  show ?thesis
    by (simp add: gis_scan_list shapes_scan_init perm)
qed

theorem file_lists_sorted_once_witness:
  "distinct (walk_paths walk_two_dirs) \<and>
   mset (walk_paths walk_two_dirs_rev) = mset (walk_paths walk_two_dirs) \<and>
   sorted (li_kml (gis_scan env_complete walk_two_dirs gis_init)) \<and>
   distinct (li_kml (gis_scan env_complete walk_two_dirs gis_init)) \<and>
   li_kml (gis_scan env_complete walk_two_dirs_rev gis_init)
     = li_kml (gis_scan env_complete walk_two_dirs gis_init)"
proof -
  have p: "walk_paths walk_two_dirs = [''/d/y/b.kml'', ''/d/x/a.kml'']"
    "walk_paths walk_two_dirs_rev = [''/d/x/a.kml'', ''/d/y/b.kml'']"
    by (simp_all add: walk_paths_def walk_two_dirs_def walk_two_dirs_rev_def path_join_def)
  have d: "distinct (walk_paths walk_two_dirs)"
    by (simp add: p)
  have m: "mset (walk_paths walk_two_dirs_rev) = mset (walk_paths walk_two_dirs)"
    by (simp add: p)
  show ?thesis
    using file_lists_sorted_once [of KML env_complete walk_two_dirs gis_init walk_two_dirs_rev gis_init] d m
    by simp
qed

text \<open>
  C6 is about every list of candidates that a run produces. \<open>DicoGIS.ligeofiles\<close>
  sorts its six lists of files; the list of File Geodatabases is filled in the order
  of the walk and is never sorted. At a tree whose walk meets \<open>b.gdb\<close> before
  \<open>a.gdb\<close>, the list is not in ascending order.
\<close>

theorem gdb_list_not_sorted:
  "li_gdb (ligeofiles env_gdb_tree ''/r'' gis_init) = [''/r/b.gdb'', ''/r/a.gdb''] \<and>
   \<not> sorted (li_gdb (ligeofiles env_gdb_tree ''/r'' gis_init))"
proof -
  have "li_gdb (ligeofiles env_gdb_tree ''/r'' gis_init) = [''/r/b.gdb'', ''/r/a.gdb'']"
    by (simp add: ligeofiles_def gis_scan_gdb env_gdb_tree_def gis_init_def walk_dirs_def
        gdb_test_def path_join_def take_last4_def lower_def lower_char_def)
  then show ?thesis by simp
qed

text \<open>
  What a second run does, for every tree: \<open>DicoShapes.ligeofiles\<close> raises, since the
  first run left two tuples; \<open>DicoGIS.ligeofiles\<close> rebuilds its six lists of files
  and appends the File Geodatabases once more to the list it does not reset.
\<close>

lemma gis_second_run_files:
  "gis_list fmt (ligeofiles env t (ligeofiles env t st)) = gis_list fmt (ligeofiles env t st)"
  by (simp add: ligeofiles_def gis_scan_list)

lemma gis_second_run_gdb:
  "li_gdb (ligeofiles env t (ligeofiles env t st))
     = li_gdb (ligeofiles env t st)
       @ map (abspath env) (filter gdb_test (walk_dirs (walk env t)))"
  by (simp add: ligeofiles_def gis_scan_gdb)

text \<open>
  C7 at a tree with two File Geodatabases and at a tree with one complete shapefile:
  the second run of \<open>DicoGIS.ligeofiles\<close> returns each geodatabase twice, and the
  second run of \<open>DicoShapes.ligeofiles\<close> raises \<open>AttributeError\<close>.
\<close>

theorem ligeofiles_second_run:
  "li_gdb (ligeofiles env_gdb_tree ''/r'' gis_init) = [''/r/b.gdb'', ''/r/a.gdb''] \<and>
   li_gdb (ligeofiles env_gdb_tree ''/r'' (ligeofiles env_gdb_tree ''/r'' gis_init))
     = [''/r/b.gdb'', ''/r/a.gdb'', ''/r/b.gdb'', ''/r/a.gdb''] \<and>
   shapes_ligeofiles env_complete ''/d'' shapes_init
     = Inr \<lparr>shapes_li_shp = PyTuple [''/d/a.shp''], shapes_li_tab = PyTuple []\<rparr> \<and>
   shapes_ligeofiles env_complete ''/d''
       \<lparr>shapes_li_shp = PyTuple [''/d/a.shp''], shapes_li_tab = PyTuple []\<rparr>
     = Inl AttributeError"
proof -
  have g: "map (abspath env_gdb_tree)
             (filter gdb_test (walk_dirs (walk env_gdb_tree ''/r''))) = [''/r/b.gdb'', ''/r/a.gdb'']"
    by (simp add: env_gdb_tree_def walk_dirs_def gdb_test_def path_join_def take_last4_def
        lower_def lower_char_def)
  have g1: "li_gdb (ligeofiles env_gdb_tree ''/r'' gis_init) = [''/r/b.gdb'', ''/r/a.gdb'']"
    by (simp add: ligeofiles_def gis_scan_gdb g) (simp add: gis_init_def)
  have sel: "filter (shapes_shp_test env_complete) (walk_paths (walk env_complete ''/d'')) = [''/d/a.shp'']"
    by code_simp
  have tab: "filter (\<lambda>p. \<not> shapes_shp_test env_complete p \<and> shapes_tab_test env_complete p)
               (walk_paths (walk env_complete ''/d'')) = []"
    by code_simp
  have s1: "shapes_ligeofiles env_complete ''/d'' shapes_init
              = Inr \<lparr>shapes_li_shp = PyTuple [''/d/a.shp''], shapes_li_tab = PyTuple []\<rparr>"
    by (simp add: shapes_ligeofiles_def shapes_scan_init sel tab)
  have s2: "shapes_ligeofiles env_complete ''/d''
              \<lparr>shapes_li_shp = PyTuple [''/d/a.shp''], shapes_li_tab = PyTuple []\<rparr>
            = Inl AttributeError"
    by (simp add: shapes_ligeofiles_def shapes_scan_tuples)
  show ?thesis
    by (simp add: gis_second_run_gdb g g1 s1 s2)
qed

section \<open>Properties of the erratum methods\<close>

text \<open>
  On an empty record, \<open>ReadGeoPDF.erratum\<close> and \<open>Utils.erratum\<close> of a \<open>Utils\<close>
  object for flat files store the base name of the path under \<open>name\<close>, its
  directory under \<open>folder\<close> and the message under \<open>error\<close>, and nothing else.
\<close>

lemma erratum_fields:
  "geopdf_erratum [] pdfpath mess
     = [(''name'', PStr (basename pdfpath)), (''folder'', PStr (dirname pdfpath)), (''error'', mess)] \<and>
   fst (utils_erratum ''flat'' [] src mess_type mess)
     = [(''name'', PStr (basename src)), (''folder'', PStr (dirname src)), (''error'', mess)]"
  by (simp add: geopdf_erratum_def utils_erratum_def setitem_def Let_def)

lemma erratum_fields_plan:
  "geopdf_erratum [] ''/data/maps/plan.pdf'' (PStr ''err_incomp'')
     = [(''name'', PStr ''plan.pdf''), (''folder'', PStr ''/data/maps''),
        (''error'', PStr ''err_incomp'')]"
proof -
  have "basename ''/data/maps/plan.pdf'' = ''plan.pdf''"
    by code_simp
  moreover have "dirname ''/data/maps/plan.pdf'' = ''/data/maps''"
    by code_simp
  ultimately show ?thesis
    using erratum_fields [of "''/data/maps/plan.pdf''" "PStr ''err_incomp''"]
    by simp
qed

text \<open>
  C8 in \<open>InfosRasters.erratum\<close>: called on an empty record with a path and a
  message, the method stores name and folder and then reads \<open>self.layer\<close>, which
  raises \<open>AttributeError\<close>. The field \<open>error\<close> is not populated: the record holds name
  and folder only.
\<close>

theorem rasters_erratum_raises:
  "rasters_erratum [] layerpath mess
     = ([(''name'', PStr (basename layerpath)), (''folder'', PStr (dirname layerpath))],
        Inl AttributeError) \<and>
   ''error'' \<notin> set (keys (fst (rasters_erratum [] layerpath mess)))"
  by (simp add: rasters_erratum_def setitem_def Let_def keys_def)

text \<open>
  \<open>Utils.erratum\<close> outside flat files. A \<open>Utils\<close> object for PostGIS takes no path:
  it stores the message type under \<open>name\<close> and the message under \<open>error\<close>. A
  \<open>Utils\<close> object of another kind leaves the record as it is and returns \<open>None\<close>.
\<close>

lemma utils_erratum_postgis:
  "fst (utils_erratum ''postgis'' [] src mess_type mess) = [(''name'', mess_type), (''error'', mess)]"
  by (simp add: utils_erratum_def setitem_def Let_def)

lemma utils_erratum_other_kind:
  "ds_type \<noteq> ''flat'' \<Longrightarrow> ds_type \<noteq> ''postgis'' \<Longrightarrow>
   utils_erratum ds_type ctner src mess_type mess = (ctner, None)"
  by (simp add: utils_erratum_def)

section \<open>Properties of the SRS type\<close>

lemma dict_get_setitem:
  "dict_get (setitem k v d) k' = (if k' = k then v else dict_get d k')"
  by (simp add: dict_get_def setitem_def update_conv')

lemma typsrs_loop_filter:
  "typsrs_loop ms typsrs =
     (case filter (\<lambda>srsmet. fst srsmet = 1) ms of
        [] \<Rightarrow> typsrs
      | m # fs \<Rightarrow> Some (snd (last (m # fs))))"
  by (induction ms arbitrary: typsrs) (auto split: list.splits)

lemma typsrs_loop_matching:
  "typsrs_loop (srsmetod srs txt) None =
     (if matching srs txt = [] then None else Some (snd (last (matching srs txt))))"
  by (simp add: typsrs_loop_filter matching_def split: list.splits)

lemma rasters_srs_type:
  assumes "matching (Projection ds) txt \<noteq> []"
  shows "dict_get (fst (rasters_infos_geom (Some ds) txt d)) ''srs_type''
           = PStr (text_or_None (snd (last (matching (Projection ds) txt))))"
  using assms
  by (simp add: rasters_infos_geom_def typsrs_loop_matching Let_def dict_get_setitem
      split: sum.splits)

lemma geopdf_srs_type:
  "dict_get (fst (geopdf_infos_geom ds txt d)) ''srs_type''
     = PStr (text_or_None (if matching (Projection ds) txt = [] then txt ''srs_nr''
                           else snd (last (matching (Projection ds) txt))))"
  by (simp add: geopdf_infos_geom_def typsrs_loop_matching Let_def dict_get_setitem
      split: sum.splits)

text \<open>
  C1, as stated: of the categories that match, the first in the order Compound,
  Geocentric, Geographic, Local, Projected, Vertical is returned. For a reference that
  answers 1 both to \<open>IsGeographic\<close> and to \<open>IsProjected\<close> the first is Geographic,
  and both readers store Projected.
\<close>

theorem srs_first_match_counterexample:
  "matching srs_geog_proj textos = [(1, Some ''Geographic''), (1, Some ''Projected'')] \<and>
   dict_get (fst (rasters_infos_geom (Some (ds_with tif_files srs_geog_proj [band_byte])) textos []))
       ''srs_type'' = PStr ''Projected'' \<and>
   dict_get (fst (geopdf_infos_geom (ds_with tif_files srs_geog_proj [band_byte]) textos []))
       ''srs_type'' = PStr ''Projected'' \<and>
   PStr ''Projected'' \<noteq> PStr (text_or_None (snd (hd (matching srs_geog_proj textos))))"
proof -
  have m: "matching srs_geog_proj textos = [(1, Some ''Geographic''), (1, Some ''Projected'')]"
    by (simp add: matching_def srsmetod_def srs_geog_proj_def textos_def)
  have p: "Projection (ds_with tif_files srs_geog_proj [band_byte]) = srs_geog_proj"
    by (simp add: ds_with_def)
  have ne: "matching (Projection (ds_with tif_files srs_geog_proj [band_byte])) textos \<noteq> []"
    by (simp add: p m)
  show ?thesis
    using rasters_srs_type [OF ne, of "[]"] geopdf_srs_type [of "ds_with tif_files srs_geog_proj [band_byte]" textos "[]"]
    by (simp add: p m text_or_None_def)
qed

text \<open>
  C1, amended: both readers go through the six tests in the order Compound,
  Geocentric, Geographic, Local, Projected, Vertical and store the text of the LAST
  category that matches; a reference that matches exactly one category gets that one.
\<close>

theorem srs_last_match:
  assumes "matching (Projection ds) txt \<noteq> []"
  shows "dict_get (fst (rasters_infos_geom (Some ds) txt d)) ''srs_type''
           = PStr (text_or_None (snd (last (matching (Projection ds) txt)))) \<and>
         dict_get (fst (geopdf_infos_geom ds txt d')) ''srs_type''
           = PStr (text_or_None (snd (last (matching (Projection ds) txt))))"
proof -
  note r = rasters_srs_type [OF assms]
  note g = geopdf_srs_type [of ds "txt"]
  show ?thesis
    using assms by (simp add: r g)
qed

theorem srs_last_match_witness:
  "matching (Projection (ds_with tif_files srs_lambert [band_byte])) textos = [(1, Some ''Projected'')] \<and>
   dict_get (fst (rasters_infos_geom (Some (ds_with tif_files srs_lambert [band_byte])) textos []))
       ''srs_type'' = PStr ''Projected'' \<and>
   dict_get (fst (geopdf_infos_geom (ds_with tif_files srs_lambert [band_byte]) textos []))
       ''srs_type'' = PStr ''Projected''"
proof -
  have m: "matching (Projection (ds_with tif_files srs_lambert [band_byte])) textos = [(1, Some ''Projected'')]"
    by (simp add: matching_def srsmetod_def srs_lambert_def textos_def ds_with_def)
  then have ne: "matching (Projection (ds_with tif_files srs_lambert [band_byte])) textos \<noteq> []"
    by simp
  show ?thesis
    using srs_last_match [OF ne, of "[]" "[]"]
    by (simp add: m text_or_None_def)
qed

text \<open>
  C4 in \<open>InfosRasters.infos_geom\<close>: when none of the six tests answers 1, the
  variable \<open>typsrs\<close> is read before any assignment. The call stores the five numbers of
  the geotransform and raises \<open>UnboundLocalError\<close>; no SRS type is stored.
\<close>

theorem rasters_unreferenced_raises:
  assumes "matching (Projection ds) txt = []"
  shows "snd (rasters_infos_geom (Some ds) txt d) = Some UnboundLocalError \<and>
         dict_get (fst (rasters_infos_geom (Some ds) txt d)) ''srs_type'' = dict_get d ''srs_type''"
  using assms
  by (simp add: rasters_infos_geom_def typsrs_loop_matching Let_def dict_get_setitem)

theorem rasters_unreferenced_raises_witness:
  "matching (Projection (ds_with tif_files srs_none [band_byte])) textos = [] \<and>
   snd (rasters_infos_geom (Some (ds_with tif_files srs_none [band_byte])) textos []) = Some UnboundLocalError \<and>
   dict_get (fst (rasters_infos_geom (Some (ds_with tif_files srs_none [band_byte])) textos [])) ''srs_type''
     = PNone \<and>
   res_raised (infos_rasters env_data (lib_opens (Opens (ds_with tif_files srs_none [band_byte])) Raises)
                 ''/data/ortho.tif'' [] [] (PStr ''.tif'') textos) = Some UnboundLocalError"
proof -
  have m: "matching (Projection (ds_with tif_files srs_none [band_byte])) textos = []"
    by (simp add: matching_def srsmetod_def srs_none_def ds_with_def)
  have r: "res_raised (infos_rasters env_data (lib_opens (Opens (ds_with tif_files srs_none [band_byte])) Raises)
                 ''/data/ortho.tif'' [] [] (PStr ''.tif'') textos) = Some UnboundLocalError"
    by code_simp
  show ?thesis
    using rasters_unreferenced_raises [OF m, of "[]"]
    by (simp add: m r dict_get_def)
qed

text \<open>
  The sibling \<open>ReadGeoPDF.infos_geom\<close> catches the \<open>UnboundLocalError\<close> and stores
  the text for "not referenced".
\<close>

lemma geopdf_unreferenced:
  "matching (Projection ds) txt = [] \<Longrightarrow>
   dict_get (fst (geopdf_infos_geom ds txt d)) ''srs_type'' = PStr (text_or_None (txt ''srs_nr''))"
  by (simp add: geopdf_srs_type)

section \<open>Properties of the raster reader \<open>InfosRasters\<close>\<close>

text \<open>
  C3 in \<open>InfosRasters\<close>: when \<open>gdal.Open\<close> returns \<open>None\<close> the constructor counts
  an alert and goes on; \<open>infos_basics\<close> stores name, folder and title and then calls
  \<open>GetFileList\<close> on \<open>None\<close>, which raises \<open>AttributeError\<close> out of the
  constructor. No \<open>error\<close> is stored and \<open>erratum\<close> is not called. When
  \<open>gdal.Open\<close> raises, the exception leaves the constructor as it is.
\<close>

theorem rasters_open_failure:
  "(gdal_Open lib rasterpath = ReturnsNone \<longrightarrow>
      infos_rasters env lib rasterpath [] [] tipo txt =
        \<lparr>res_raster =
           [(''format'', tipo), (''name'', PStr (basename rasterpath)),
            (''folder'', PStr (dirname rasterpath)),
            (''title'', PStr (capitalize (replace_underscores (drop_last4 (basename rasterpath)))))],
         res_bands = [], res_alert = 1, res_raised = Some AttributeError\<rparr>) \<and>
   (gdal_Open lib rasterpath = Raises \<longrightarrow>
      infos_rasters env lib rasterpath [] [] tipo txt =
        \<lparr>res_raster = [], res_bands = [], res_alert = 0, res_raised = Some RuntimeError\<rparr>)"
  by (simp add: infos_rasters_def rasters_infos_basics_def setitem_def Let_def)

theorem rasters_open_failure_witness:
  "gdal_Open (lib_opens ReturnsNone Raises) ''/data/ortho.tif'' = ReturnsNone \<and>
   infos_rasters env_data (lib_opens ReturnsNone Raises) ''/data/ortho.tif'' [] [] (PStr ''.tif'') textos =
     \<lparr>res_raster = [(''format'', PStr ''.tif''), (''name'', PStr ''ortho.tif''),
                     (''folder'', PStr ''/data''), (''title'', PStr ''Ortho'')],
       res_bands = [], res_alert = 1, res_raised = Some AttributeError\<rparr>"
proof -
  have o: "gdal_Open (lib_opens ReturnsNone Raises) ''/data/ortho.tif'' = ReturnsNone"
    by (simp add: lib_opens_def)
  have b: "basename ''/data/ortho.tif'' = ''ortho.tif''"
    by code_simp
  have d: "dirname ''/data/ortho.tif'' = ''/data''"
    by code_simp
  have t: "capitalize (replace_underscores (drop_last4 ''ortho.tif'')) = ''Ortho''"
    by code_simp
  show ?thesis
    using rasters_open_failure [of "lib_opens ReturnsNone Raises" "''/data/ortho.tif''" env_data
        "PStr ''.tif''" textos]
    by (simp add: o b d t)
qed

lemma rasters_basics_num_bands:
  "rasters_infos_basics env (Some ds) rasterpath d = (d1, None) \<Longrightarrow>
   dict_get d1 ''num_bands'' = PInt (RasterCount ds)"
  by (auto simp: rasters_infos_basics_def Let_def dict_get_setitem split: option.splits)

lemma rasters_geom_num_bands:
  "dict_get (fst (rasters_infos_geom rast txt d1)) ''num_bands'' = dict_get d1 ''num_bands''"
  by (simp add: rasters_infos_geom_def Let_def dict_get_setitem split: option.splits sum.splits)

lemma rasters_bands_range:
  assumes "gdal_Open lib rasterpath = Opens ds"
  shows "res_bands (infos_rasters env lib rasterpath dico_raster dico_bands tipo txt) = dico_bands \<or>
         res_bands (infos_rasters env lib rasterpath dico_raster dico_bands tipo txt)
           = fst (rasters_bands_loop (Some ds) [1..<length (Bands ds)] dico_bands)"
proof (cases "rasters_infos_basics env (Some ds) rasterpath (setitem ''format'' tipo dico_raster)")
  case (Pair d1 e1)
  show ?thesis
  proof (cases e1)
    case (Some e)
    with Pair assms show ?thesis
      by (simp add: infos_rasters_def)
  next
    case None
    note basics = Pair [unfolded None]
    obtain d2 e2 where geom: "rasters_infos_geom (Some ds) txt d1 = (d2, e2)"
      by (cases "rasters_infos_geom (Some ds) txt d1")
    show ?thesis
    proof (cases e2)
      case (Some e)
      with basics geom assms show ?thesis
        by (simp add: infos_rasters_def)
    next
      case None
      have "dict_get d2 ''num_bands'' = PInt (RasterCount ds)"
        using rasters_geom_num_bands [of "Some ds" "txt" d1] geom
          rasters_basics_num_bands [OF basics]
        by simp
      then have "py_range1 (dict_get d2 ''num_bands'') = Inr [1..<length (Bands ds)]"
        by (simp add: py_range1_def RasterCount_def)
      with basics geom None assms show ?thesis
        by (simp add: infos_rasters_def split: prod.splits)
    qed
  qed
qed

text \<open>
  For a dataset with one band the loop on the bands has no turn: whatever the rest of
  the constructor does, the dictionary of bands is returned as it was handed in.
\<close>

lemma rasters_single_band_skipped:
  assumes "gdal_Open lib rasterpath = Opens ds" and "length (Bands ds) = 1"
  shows "res_bands (infos_rasters env lib rasterpath dico_raster dico_bands tipo txt) = dico_bands"
  using rasters_bands_range [OF assms(1), of env dico_raster dico_bands tipo "txt"] assms(2)
  by auto

lemma rasters_single_band_run:
  "gdal_Open (lib_opens (Opens (ds_with tif_files srs_lambert [band_byte])) Raises) ''/data/ortho.tif''
     = Opens (ds_with tif_files srs_lambert [band_byte]) \<and>
   length (Bands (ds_with tif_files srs_lambert [band_byte])) = 1 \<and>
   res_raised (infos_rasters env_data (lib_opens (Opens (ds_with tif_files srs_lambert [band_byte])) Raises)
                 ''/data/ortho.tif'' [] [] (PStr ''.tif'') textos) = None \<and>
   res_bands (infos_rasters env_data (lib_opens (Opens (ds_with tif_files srs_lambert [band_byte])) Raises)
                ''/data/ortho.tif'' [] [] (PStr ''.tif'') textos) = []"
proof -
  have o: "gdal_Open (lib_opens (Opens (ds_with tif_files srs_lambert [band_byte])) Raises) ''/data/ortho.tif''
             = Opens (ds_with tif_files srs_lambert [band_byte])"
    by (simp add: lib_opens_def)
  have n: "length (Bands (ds_with tif_files srs_lambert [band_byte])) = 1"
    by (simp add: ds_with_def)
  have r: "res_raised (infos_rasters env_data (lib_opens (Opens (ds_with tif_files srs_lambert [band_byte])) Raises)
                 ''/data/ortho.tif'' [] [] (PStr ''.tif'') textos) = None"
    by code_simp
  show ?thesis
    using rasters_single_band_skipped [OF o n, of env_data "[]" "[]" "PStr ''.tif''" textos]
    by (simp add: o n r)
qed

text \<open>
  The same loop bound on two bands: the first band gets its record and the second, of
  index \<open>band_count\<close>, gets none.
\<close>

lemma rasters_two_bands:
  "res_bands (infos_rasters env_data
                (lib_opens (Opens (ds_with tif_files srs_lambert [band_byte, band_byte])) Raises)
                ''/data/ortho.tif'' [] [] (PStr ''.tif'') textos)
     = [(''band1_Min'', PNone), (''band1_Max'', PNone), (''band1_NoData'', PNone)]"
  by code_simp

text \<open>
  The keys of different bands are different strings: a number is read back from its
  decimal digits, and the digits hold no underscore.
\<close>

lemma nat_of_str_snoc: "nat_of_str (s @ [c]) = 10 * nat_of_str s + ((of_char c :: nat) - 48)"
  by (simp add: nat_of_str_def)

lemma digit_value: "d < 10 \<Longrightarrow> (of_char (digit_char d) :: nat) - 48 = d"
  by (simp add: digit_char_def)

lemma nat_of_str_str_nat: "nat_of_str (str_nat n) = n"
proof (induction n rule: str_nat.induct)
  case (1 n)
  show ?case
  proof (cases "n < 10")
    case True
    then show ?thesis
      by (subst str_nat.simps) (simp add: nat_of_str_def digit_value)
  next
    case False
    then have "nat_of_str (str_nat (n div 10)) = n div 10"
      using "1.IH" by simp
    with False show ?thesis
      by (subst str_nat.simps) (simp add: nat_of_str_snoc digit_value)
  qed
qed

lemma str_nat_inject: "str_nat a = str_nat b \<Longrightarrow> a = b"
  by (metis nat_of_str_str_nat)

lemma keys_setitem: "set (keys (setitem k v d)) = insert k (set (keys d))"
  using dom_update [of k v d] by (simp add: keys_def setitem_def)

lemma rasters_infos_bands_keys:
  "set (keys (fst (rasters_infos_bands rast band d))) \<subseteq> set (keys d) \<union> band_keys band"
  by (auto simp: rasters_infos_bands_def Let_def keys_setitem band_keys_def split: option.splits)

lemma rasters_bands_loop_keys:
  "set (keys (fst (rasters_bands_loop rast bs d))) \<subseteq> set (keys d) \<union> (\<Union>b \<in> set bs. band_keys b)"
proof (induction bs arbitrary: d)
  case Nil
  then show ?case by simp
next
  case (Cons b bs)
  obtain d1 e where step: "rasters_infos_bands rast b d = (d1, e)"
    by (cases "rasters_infos_bands rast b d")
  have k1: "set (keys d1) \<subseteq> set (keys d) \<union> band_keys b"
    using rasters_infos_bands_keys [of rast b d] step by simp
  show ?case
  proof (cases e)
    case None
    with step Cons.IH [of d1] k1 show ?thesis
      by auto
  next
    case (Some err)
    with step k1 show ?thesis
      by auto
  qed
qed

lemma band_key_inject:
  assumes "''band'' @ str_nat n @ sfx \<in> band_keys b"
    and "sfx \<in> {''_Min'', ''_Max'', ''_NoData''}"
  shows "n = b"
proof -
  have u: "CHR ''_'' \<notin> set (str_nat m)" for m
  proof (induction m rule: str_nat.induct)
    case (1 m)
    have d: "digit_char k \<noteq> CHR ''_''" if "k < 10" for k
    proof
      assume "digit_char k = CHR ''_''"
      then have "(of_char (digit_char k) :: nat) = of_char CHR ''_''"
        by simp
      with that show False
        by (simp add: digit_char_def)
    qed
    show ?case
    proof (cases "m < 10")
      case True
      then show ?thesis
        by (subst str_nat.simps) (simp add: d not_sym [OF d])
    next
      case False
      with "1.IH" show ?thesis
        by (subst str_nat.simps) (simp add: d not_sym [OF d])
    qed
  qed
  have first: "takeWhile (\<lambda>x. x \<noteq> CHR ''_'') (str_nat a @ CHR ''_'' # r) = str_nat a" for a r
    using u [of a] by (auto simp: takeWhile_tail)
  have split: "str_nat a = str_nat c" if "str_nat a @ CHR ''_'' # r = str_nat c @ CHR ''_'' # r'"
    for a c r r'
    using first [of a r] first [of c r'] that by simp
  from assms consider
      "str_nat n @ sfx = str_nat b @ ''_Min''" | "str_nat n @ sfx = str_nat b @ ''_Max''"
    | "str_nat n @ sfx = str_nat b @ ''_NoData''"
    by (auto simp: band_keys_def)
  then have "str_nat n = str_nat b"
  proof cases
    case 1
    with assms(2) show ?thesis by (auto dest: split)
  next
    case 2
    with assms(2) show ?thesis by (auto dest: split)
  next
    case 3
    with assms(2) show ?thesis by (auto dest: split)
  qed
  then show ?thesis
    by (rule str_nat_inject)
qed


text \<open>
  C2 in \<open>InfosRasters\<close>, for every number of bands: the loop is
  \<open>for band in range(1, num_bands)\<close>, which stops at \<open>num_bands - 1\<close>. Whatever
  dataset opens, the constructor called with an empty dictionary of bands stores no key
  of the band whose index is \<open>band_count\<close>.
\<close>

theorem rasters_last_band_skipped:
  assumes "gdal_Open lib rasterpath = Opens ds"
  shows "''band'' @ str_nat (length (Bands ds)) @ ''_Min''
           \<notin> set (keys (res_bands (infos_rasters env lib rasterpath dico_raster [] tipo txt))) \<and>
         ''band'' @ str_nat (length (Bands ds)) @ ''_Max''
           \<notin> set (keys (res_bands (infos_rasters env lib rasterpath dico_raster [] tipo txt))) \<and>
         ''band'' @ str_nat (length (Bands ds)) @ ''_NoData''
           \<notin> set (keys (res_bands (infos_rasters env lib rasterpath dico_raster [] tipo txt)))"
proof -
  let ?n = "length (Bands ds)"
  let ?b = "res_bands (infos_rasters env lib rasterpath dico_raster [] tipo txt)"
  have empty: "set (keys []) = {}"
    by (simp add: keys_def)
  from rasters_bands_range [OF assms, of env dico_raster "[]" tipo "txt"]
  have sub: "set (keys ?b) \<subseteq> (\<Union>b \<in> set [1..<?n]. band_keys b)"
  proof
    assume "?b = []"
    then show ?thesis
      by (simp add: empty)
  next
    assume "?b = fst (rasters_bands_loop (Some ds) [1..<?n] [])"
    then show ?thesis
      using rasters_bands_loop_keys [of "Some ds" "[1..<?n]" "[]"]
      by (simp add: empty)
  qed
  have no: "''band'' @ str_nat ?n @ sfx \<notin> set (keys ?b)"
    if "sfx \<in> {''_Min'', ''_Max'', ''_NoData''}" for sfx
  proof
    assume "''band'' @ str_nat ?n @ sfx \<in> set (keys ?b)"
    with sub obtain b where "b \<in> set [1..<?n]" and "''band'' @ str_nat ?n @ sfx \<in> band_keys b"
      by blast
    with that band_key_inject [of ?n sfx b] show False
      by simp
  qed
  show ?thesis
    using no [of "''_Min''"] no [of "''_Max''"] no [of "''_NoData''"] by simp
qed

theorem rasters_last_band_skipped_witness:
  "gdal_Open (lib_opens (Opens (ds_with tif_files srs_lambert [band_byte, band_byte])) Raises)
       ''/data/ortho.tif''
     = Opens (ds_with tif_files srs_lambert [band_byte, band_byte]) \<and>
   length (Bands (ds_with tif_files srs_lambert [band_byte, band_byte])) = 2 \<and>
   res_raised (infos_rasters env_data
                 (lib_opens (Opens (ds_with tif_files srs_lambert [band_byte, band_byte])) Raises)
                 ''/data/ortho.tif'' [] [] (PStr ''.tif'') textos) = None \<and>
   ''band2_Min'' \<notin> set (keys (res_bands (infos_rasters env_data
                 (lib_opens (Opens (ds_with tif_files srs_lambert [band_byte, band_byte])) Raises)
                 ''/data/ortho.tif'' [] [] (PStr ''.tif'') textos)))"
proof -
  have o: "gdal_Open (lib_opens (Opens (ds_with tif_files srs_lambert [band_byte, band_byte])) Raises)
             ''/data/ortho.tif''
           = Opens (ds_with tif_files srs_lambert [band_byte, band_byte])"
    by (simp add: lib_opens_def)
  have n: "length (Bands (ds_with tif_files srs_lambert [band_byte, band_byte])) = 2"
    by (simp add: ds_with_def)
  have k: "str_nat 2 = ''2''"
    by code_simp
  have r: "res_raised (infos_rasters env_data
                 (lib_opens (Opens (ds_with tif_files srs_lambert [band_byte, band_byte])) Raises)
                 ''/data/ortho.tif'' [] [] (PStr ''.tif'') textos) = None"
    by code_simp
  show ?thesis
    using rasters_last_band_skipped [OF o, of env_data "[]" "PStr ''.tif''" textos]
    by (simp add: o n k r)
qed

section \<open>Properties of the container reader \<open>ReadGeoPDF\<close>\<close>

lemma plan_strings:
  "basename ''/data/plan.pdf'' = ''plan.pdf''"
  "dirname ''/data/plan.pdf'' = ''/data''"
  "capitalize (replace_underscores (drop_last4 ''plan.pdf'')) = ''Plan''"
  "geopdf_date_crea (Some ''D:20140218120000'') = Inr ''18/02/2014''"
  "str_nat (Suc 0) = ''1''"
  "str_nat 0 = ''0''"
  "geopdf_srs_name srs_lambert = Inr ''RGF93 Lambert 93''"
  "unicode_opt (attr_AUTHORITY1 srs_lambert) = Inr ''2154''"
  "typsrs_loop (srsmetod srs_lambert textos) None = Some (Some ''Projected'')"
  by code_simp+

lemma plan_raster_basics:
  "raster_basics env_data ds_plan ''/data/plan.pdf'' [(''format'', PStr ''pdf'')] =
     (take 20 plan_raster_fields, None)"
  by (simp add: raster_basics_def ds_plan_def ds_with_def pdf_files_def env_data_def plan_strings
      Let_def setitem_def size_cats_def md_get_def str_or_None_def geopdf_creator_prod_def
      format_arg_def unicode_opt_def GetRasterBand_def RasterCount_def band_byte_def
      plan_raster_fields_def)

lemma plan_infos_geom:
  "geopdf_infos_geom ds_plan textos (take 20 plan_raster_fields) = (take 28 plan_raster_fields, None)"
  by (simp add: geopdf_infos_geom_def ds_plan_def ds_with_def Let_def setitem_def plan_strings
      py_round_def text_or_None_def plan_raster_fields_def)

lemma plan_bands_loop:
  "geopdf_bands_loop ds_plan [1..<length (Bands ds_plan)] (take 28 plan_raster_fields)
     = (take 29 plan_raster_fields, None)"
proof -
  have r: "[1..<length (Bands ds_plan)] = [1]"
    by (simp add: ds_plan_def ds_with_def)
  show ?thesis
    by (simp add: r geopdf_infos_bands_def GetRasterBand_def ds_plan_def ds_with_def band_byte_def
        Let_def setitem_def plan_strings py_round_def float_or_None_def plan_raster_fields_def)
qed

lemma plan_raster_part:
  "geopdf_raster_part env_data (lib_opens r v) ds_plan ''/data/plan.pdf'' (PStr ''pdf'') textos []
     = (plan_raster_fields, None)"
proof -
  have s: "setitem ''format'' (PStr ''pdf'') [] = [(''format'', PStr ''pdf'')]"
    by (simp add: setitem_def)
  have "geopdf_raster_part env_data (lib_opens r v) ds_plan ''/data/plan.pdf'' (PStr ''pdf'') textos []
          = (setitem ''err_gdal'' (gdal_err (lib_opens r v) ''/data/plan.pdf'')
               (take 29 plan_raster_fields), None)"
    by (simp only: geopdf_raster_part_def s plan_raster_basics plan_infos_geom plan_bands_loop
        prod.case option.case)
  then show ?thesis
    by (simp add: lib_opens_def setitem_def plan_raster_fields_def)
qed

text \<open>
  C9, as stated: when the raster view cannot be opened, the vector view is still
  opened and its layers listed. With a raster view that does not open and a vector
  view of one layer, the constructor stores the erratum and returns: no layer is
  listed.
\<close>

theorem geopdf_views_counterexample:
  "gdal_Open (lib_opens ReturnsNone (Opens one_layer)) ''/data/plan.pdf'' = ReturnsNone \<and>
   ogr_Open (lib_opens ReturnsNone (Opens one_layer)) ''/data/plan.pdf'' = Opens one_layer \<and>
   length (Layers one_layer) = 1 \<and>
   read_geopdf env_data (lib_opens ReturnsNone (Opens one_layer)) ''/data/plan.pdf'' []
       (PStr ''pdf'') textos
     = \<lparr>pdf_dico = [(''name'', PStr ''plan.pdf''), (''folder'', PStr ''/data''),
                    (''error'', PStr ''err_incomp'')],
         pdf_alert = 1, pdf_raised = None\<rparr> \<and>
   ''layers_count'' \<notin> set (keys (pdf_dico (read_geopdf env_data
        (lib_opens ReturnsNone (Opens one_layer)) ''/data/plan.pdf'' [] (PStr ''pdf'') textos)))"
proof -
  have "read_geopdf env_data (lib_opens ReturnsNone (Opens one_layer)) ''/data/plan.pdf'' []
          (PStr ''pdf'') textos
        = \<lparr>pdf_dico = [(''name'', PStr ''plan.pdf''), (''folder'', PStr ''/data''),
                       (''error'', PStr ''err_incomp'')],
            pdf_alert = 1, pdf_raised = None\<rparr>"
    by (simp add: read_geopdf_def plan_strings)
       (simp add: env_data_def lib_opens_def geopdf_erratum_def setitem_def plan_strings)
  then show ?thesis
    by (simp add: lib_opens_def one_layer_def keys_def)
qed

text \<open>
  C9, amended: the constructor opens the raster view first. When that fails (the
  library raises or returns nothing) it stores the erratum \<open>err_incomp\<close> and returns
  without opening the vector view. When the raster view opens and its metadata are
  read, the vector view is opened next: when the library raises there, the erratum
  \<open>err_corrupt\<close> is added to the raster metadata already stored; when it opens, the
  layers are listed after the raster metadata. In these three cases no exception
  leaves the constructor.
\<close>

theorem geopdf_open_failures:
  assumes "isdir env (dirname pdfpath0)"
    and "pdfpath = abspath_after_chdir env (dirname pdfpath0) pdfpath0"
  shows "((gdal_Open lib pdfpath = Raises \<or> gdal_Open lib pdfpath = ReturnsNone) \<longrightarrow>
            read_geopdf env lib pdfpath0 dico_geopdf tipo txt =
              \<lparr>pdf_dico = geopdf_erratum dico_geopdf pdfpath (PStr ''err_incomp''),
                pdf_alert = 1, pdf_raised = None\<rparr>) \<and>
         (gdal_Open lib pdfpath = Opens ds \<and>
          geopdf_raster_part env lib ds pdfpath tipo txt dico_geopdf = (d, None) \<and>
          ogr_Open lib pdfpath = Raises \<longrightarrow>
            read_geopdf env lib pdfpath0 dico_geopdf tipo txt =
              \<lparr>pdf_dico = geopdf_erratum d pdfpath (PStr ''err_corrupt''),
                pdf_alert = 1, pdf_raised = None\<rparr>) \<and>
         (gdal_Open lib pdfpath = Opens ds \<and>
          geopdf_raster_part env lib ds pdfpath tipo txt dico_geopdf = (d, None) \<and>
          ogr_Open lib pdfpath = Opens geopdf_v \<longrightarrow>
            read_geopdf env lib pdfpath0 dico_geopdf tipo txt =
              \<lparr>pdf_dico = geopdf_vector_layers geopdf_v d, pdf_alert = 0, pdf_raised = None\<rparr>)"
  using assms
  by (auto simp: read_geopdf_def geopdf_vector_part_def Let_def)

theorem geopdf_open_failures_witness:
  "read_geopdf env_data (lib_opens Raises (Opens one_layer)) ''/data/plan.pdf'' [] (PStr ''pdf'') textos
     = \<lparr>pdf_dico = [(''name'', PStr ''plan.pdf''), (''folder'', PStr ''/data''),
                    (''error'', PStr ''err_incomp'')],
         pdf_alert = 1, pdf_raised = None\<rparr> \<and>
   read_geopdf env_data (lib_opens (Opens ds_plan) Raises) ''/data/plan.pdf'' [] (PStr ''pdf'') textos
     = \<lparr>pdf_dico = plan_raster_fields @ [(''error'', PStr ''err_corrupt'')],
         pdf_alert = 1, pdf_raised = None\<rparr>"
proof -
  have dir: "isdir env_data (dirname ''/data/plan.pdf'')"
    by (simp add: plan_strings env_data_def)
  have p: "''/data/plan.pdf'' = abspath_after_chdir env_data (dirname ''/data/plan.pdf'') ''/data/plan.pdf''"
    by (simp add: env_data_def)
  have e1: "geopdf_erratum [] ''/data/plan.pdf'' (PStr ''err_incomp'')
              = [(''name'', PStr ''plan.pdf''), (''folder'', PStr ''/data''),
                 (''error'', PStr ''err_incomp'')]"
    by (simp add: geopdf_erratum_def setitem_def plan_strings)
  have e2: "geopdf_erratum plan_raster_fields ''/data/plan.pdf'' (PStr ''err_corrupt'')
              = plan_raster_fields @ [(''error'', PStr ''err_corrupt'')]"
    by (simp add: geopdf_erratum_def setitem_def plan_strings plan_raster_fields_def)
  have a: "read_geopdf env_data (lib_opens Raises (Opens one_layer)) ''/data/plan.pdf'' []
             (PStr ''pdf'') textos
           = \<lparr>pdf_dico = geopdf_erratum [] ''/data/plan.pdf'' (PStr ''err_incomp''),
               pdf_alert = 1, pdf_raised = None\<rparr>"
    using geopdf_open_failures [OF dir p, of "lib_opens Raises (Opens one_layer)" "[]" "PStr ''pdf''" textos]
    by (simp add: lib_opens_def)
  have b: "read_geopdf env_data (lib_opens (Opens ds_plan) Raises) ''/data/plan.pdf'' []
             (PStr ''pdf'') textos
           = \<lparr>pdf_dico = geopdf_erratum plan_raster_fields ''/data/plan.pdf'' (PStr ''err_corrupt''),
               pdf_alert = 1, pdf_raised = None\<rparr>"
    using geopdf_open_failures [OF dir p, of "lib_opens (Opens ds_plan) Raises" "[]"
        "PStr ''pdf''" textos ds_plan plan_raster_fields]
      plan_raster_part [of "Opens ds_plan" Raises]
    by (simp add: lib_opens_def)
  show ?thesis
    by (simp add: a b e1 e2)
qed

text \<open>
  The loop on the bands of \<open>ReadGeoPDF\<close> has the bound of \<open>InfosRasters\<close>: of the two
  bands of \<open>ds_plan\<close> only the first gets its record.
\<close>

lemma geopdf_two_bands:
  "filter (\<lambda>k. take 5 k = ''band_'') (keys (fst (geopdf_raster_part env_data (lib_opens r v) ds_plan
      ''/data/plan.pdf'' (PStr ''pdf'') textos []))) = [''band_1'']"
  by (simp add: plan_raster_part) (simp add: plan_raster_fields_def keys_def)

end
